theory Spec2Isabelle
  imports Main
begin

section \<open>Shared data: dispatch configurations and synthetic events\<close>

text \<open>
  JavaScript objects are references; a DOM object (element, document, window) and a
  Fiber are each identified by a number, and their properties are read through the
  platform record of the moment.
\<close>

type_synonym obj = nat
type_synonym fiber = nat

record phased_names =
  bubbled :: string
  captured :: string

text \<open>
  Modelled from the spec: the type \<open>DispatchConfig\<close> is declared in
  \<open>ReactSyntheticEventType\<close>, a module outside the files modelled here. The spec gives
  it the phased registration names (captured and bubbled) or none, the direct registration
  name or none, the dependencies and the interactive flag. A property that the object
  does not have is \<open>None\<close>: one that an object literal of the plugins does not write,
  and every one of them where the value read as a configuration is not a configuration
  at all (see \<open>inherited_member\<close> below).
\<close>

record dispatch_config =
  phasedRegistrationNames :: "phased_names option"
  directRegistrationName :: "string option"
  dependencies :: "string list option"
  isInteractive :: "bool option"

text \<open>The properties of a native event that the plugins read.\<close>

record native_event =
  button :: "int option"
  charCode :: "int option"
  keyCode :: "int option"

datatype event_constructor =
    SyntheticEvent
  | SyntheticAnimationEvent
  | SyntheticClipboardEvent
  | SyntheticFocusEvent
  | SyntheticKeyboardEvent
  | SyntheticMouseEvent
  | SyntheticDragEvent
  | SyntheticTouchEvent
  | SyntheticTransitionEvent
  | SyntheticUIEvent
  | SyntheticWheelEvent

datatype propagation = TwoPhase | Direct

text \<open>
  What a plugin decides about the event it returns: the constructor whose
  \<open>getPooled\<close> it calls with its four arguments, the properties it assigns afterwards
  (\<open>type\<close> and \<open>target\<close>, assigned by the selection plugin only), and the
  accumulation it requests.
\<close>

record synthetic_event =
  eventConstructor :: event_constructor
  dispatchConfig :: dispatch_config
  targetInst :: "fiber option"
  nativeEvent :: native_event
  nativeEventTarget :: obj
  assignedType :: "string option"
  assignedTarget :: "obj option"
  accumulated :: "propagation option"

section \<open>SimpleEventPlugin\<close>

definition interactiveEventTypeNames :: "string list" where
  "interactiveEventTypeNames =
    [''blur'', ''cancel'', ''click'', ''close'', ''contextMenu'', ''copy'', ''cut'',
     ''doubleClick'', ''dragEnd'', ''dragStart'', ''drop'', ''focus'', ''input'',
     ''invalid'', ''keyDown'', ''keyPress'', ''keyUp'', ''mouseDown'', ''mouseUp'',
     ''paste'', ''pause'', ''play'', ''rateChange'', ''reset'', ''seeked'', ''submit'',
     ''touchCancel'', ''touchEnd'', ''touchStart'', ''volumeChange'']"

definition nonInteractiveEventTypeNames :: "string list" where
  "nonInteractiveEventTypeNames =
    [''abort'', ''animationEnd'', ''animationIteration'', ''animationStart'',
     ''canPlay'', ''canPlayThrough'', ''drag'', ''dragEnter'', ''dragExit'',
     ''dragLeave'', ''dragOver'', ''durationChange'', ''emptied'', ''encrypted'',
     ''ended'', ''error'', ''load'', ''loadedData'', ''loadedMetadata'', ''loadStart'',
     ''mouseMove'', ''mouseOut'', ''mouseOver'', ''playing'', ''progress'', ''scroll'',
     ''seeking'', ''stalled'', ''suspend'', ''timeUpdate'', ''toggle'', ''touchMove'',
     ''transitionEnd'', ''waiting'', ''wheel'']"

text \<open>
  \<open>String.prototype.toUpperCase\<close> on one character of an ASCII name: the 26 lower
  case letters map to their capitals, every other character is kept.
\<close>

definition toUpperCase :: "char \<Rightarrow> char" where
  "toUpperCase c =
     (case map_of (zip ''abcdefghijklmnopqrstuvwxyz'' ''ABCDEFGHIJKLMNOPQRSTUVWXYZ'') c of
        Some u \<Rightarrow> u
      | None \<Rightarrow> c)"

text \<open>
  \<open>event[0].toUpperCase() + event.slice(1)\<close>. On the empty string \<open>event[0]\<close> is
  undefined and the call throws a TypeError: \<open>None\<close>.
\<close>

fun capitalizedEvent :: "string \<Rightarrow> string option" where
  "capitalizedEvent [] = None"
| "capitalizedEvent (c # cs) = Some (toUpperCase c # cs)"

text \<open>
  The two module-level tables that \<open>addEventTypeNameToConfig\<close> fills. Each starts as
  the empty object literal; the map holds its own properties, the entries written under
  their keys. What a read \<open>table[key]\<close> returns is \<open>property_lookup\<close> below.
\<close>

record tables =
  eventTypes :: "string \<rightharpoonup> dispatch_config"
  topLevelEventsToDispatchConfig :: "string \<rightharpoonup> dispatch_config"

definition empty_tables :: tables where
  "empty_tables = \<lparr>eventTypes = Map.empty, topLevelEventsToDispatchConfig = Map.empty\<rparr>"

definition addEventTypeNameToConfig :: "string \<Rightarrow> bool \<Rightarrow> tables \<Rightarrow> tables option" where
  "addEventTypeNameToConfig event isInter T =
     (case capitalizedEvent event of
        None \<Rightarrow> None
      | Some capitalized \<Rightarrow>
          (let onEvent = ''on'' @ capitalized;
               topEvent = ''top'' @ capitalized;
               type = \<lparr>phasedRegistrationNames =
                         Some \<lparr>bubbled = onEvent, captured = onEvent @ ''Capture''\<rparr>,
                       directRegistrationName = None,
                       dependencies = Some [topEvent],
                       isInteractive = Some isInter\<rparr>
           in Some \<lparr>eventTypes = (eventTypes T)(event \<mapsto> type),
                    topLevelEventsToDispatchConfig =
                      (topLevelEventsToDispatchConfig T)(topEvent \<mapsto> type)\<rparr>))"

text \<open>\<open>names.forEach(n => addEventTypeNameToConfig(n, flag))\<close>; a throw ends the loop.\<close>

fun forEach_add :: "string list \<Rightarrow> bool \<Rightarrow> tables \<Rightarrow> tables option" where
  "forEach_add [] isInter T = Some T"
| "forEach_add (event # rest) isInter T =
     (case addEventTypeNameToConfig event isInter T of
        None \<Rightarrow> None
      | Some T' \<Rightarrow> forEach_add rest isInter T')"

text \<open>The module body: both loops, run once when the module is loaded.\<close>

definition module_load :: "tables option" where
  "module_load =
     (case forEach_add interactiveEventTypeNames True empty_tables of
        None \<Rightarrow> None
      | Some T \<Rightarrow> forEach_add nonInteractiveEventTypeNames False T)"

text \<open>
  The tables of the loaded module. The load does not throw (lemma \<open>module_load_ok\<close>),
  so the second branch is never taken.
\<close>

definition SimpleEventPlugin_tables :: tables where
  "SimpleEventPlugin_tables = (case module_load of Some T \<Rightarrow> T | None \<Rightarrow> empty_tables)"

text \<open>
  The names of the members that an object literal inherits from \<open>Object.prototype\<close>
  in ECMAScript. Each is a function, or for \<open>__proto__\<close> the prototype object itself,
  so each is truthy.
\<close>

definition Object_prototype_members :: "string list" where
  "Object_prototype_members =
    [''constructor'', ''__defineGetter__'', ''__defineSetter__'', ''hasOwnProperty'',
     ''__lookupGetter__'', ''__lookupSetter__'', ''isPrototypeOf'',
     ''propertyIsEnumerable'', ''toString'', ''valueOf'', ''__proto__'',
     ''toLocaleString'']"

text \<open>
  Such a member read as a dispatch configuration: it has none of the four properties.
\<close>

definition inherited_member :: dispatch_config where
  "inherited_member =
     \<lparr>phasedRegistrationNames = None, directRegistrationName = None,
      dependencies = None, isInteractive = None\<rparr>"

text \<open>
  The read \<open>table[key]\<close> on a table that started as \<open>{}\<close>: the own property under
  that key if there is one, else the member inherited under that name, else undefined
  (\<open>None\<close>).
\<close>

definition property_lookup :: "(string \<rightharpoonup> dispatch_config) \<Rightarrow> string \<Rightarrow> dispatch_config option" where
  "property_lookup table key =
     (case table key of
        Some config \<Rightarrow> Some config
      | None \<Rightarrow> if key \<in> set Object_prototype_members then Some inherited_member else None)"

definition knownHTMLTopLevelTypes :: "string list" where
  "knownHTMLTopLevelTypes =
    [''topAbort'', ''topCancel'', ''topCanPlay'', ''topCanPlayThrough'', ''topClose'',
     ''topDurationChange'', ''topEmptied'', ''topEncrypted'', ''topEnded'', ''topError'',
     ''topInput'', ''topInvalid'', ''topLoad'', ''topLoadedData'', ''topLoadedMetadata'',
     ''topLoadStart'', ''topPause'', ''topPlay'', ''topPlaying'', ''topProgress'',
     ''topRateChange'', ''topReset'', ''topSeeked'', ''topSeeking'', ''topStalled'',
     ''topSubmit'', ''topSuspend'', ''topTimeUpdate'', ''topToggle'',
     ''topVolumeChange'', ''topWaiting'']"

definition unhandled_warning :: "string \<Rightarrow> string" where
  "unhandled_warning topLevelType =
     ''SimpleEventPlugin: Unhandled event type, `'' @ topLevelType @
     ''`. This warning is likely caused by a bug in React. Please file an issue.''"

text \<open>
  The \<open>switch\<close> of \<open>extractEvents\<close>: the constructor chosen for a native kind, or
  \<open>None\<close> where a case returns null, together with the warnings printed.
  \<open>DEV\<close> is the build flag \<open>__DEV__\<close>; \<open>getEventCharCode\<close> is the helper of the
  same name, imported from a module outside the files modelled here: a parameter.
\<close>

definition switch_topLevelType ::
  "bool \<Rightarrow> (native_event \<Rightarrow> int) \<Rightarrow> string \<Rightarrow> native_event
     \<Rightarrow> event_constructor option \<times> string list" where
  "switch_topLevelType DEV getEventCharCode topLevelType nativeEv =
     (if topLevelType = ''topKeyPress'' then
        (if getEventCharCode nativeEv = 0 then (None, [])
         else (Some SyntheticKeyboardEvent, []))
      else if topLevelType \<in> set [''topKeyDown'', ''topKeyUp''] then
        (Some SyntheticKeyboardEvent, [])
      else if topLevelType \<in> set [''topBlur'', ''topFocus''] then
        (Some SyntheticFocusEvent, [])
      else if topLevelType = ''topClick'' then
        (if button nativeEv = Some 2 then (None, [])
         else (Some SyntheticMouseEvent, []))
      else if topLevelType \<in> set [''topDoubleClick'', ''topMouseDown'', ''topMouseMove'',
                ''topMouseUp'', ''topMouseOut'', ''topMouseOver'', ''topContextMenu''] then
        (Some SyntheticMouseEvent, [])
      else if topLevelType \<in> set [''topDrag'', ''topDragEnd'', ''topDragEnter'',
                ''topDragExit'', ''topDragLeave'', ''topDragOver'', ''topDragStart'',
                ''topDrop''] then
        (Some SyntheticDragEvent, [])
      else if topLevelType \<in> set [''topTouchCancel'', ''topTouchEnd'', ''topTouchMove'',
                ''topTouchStart''] then
        (Some SyntheticTouchEvent, [])
      else if topLevelType \<in> set [''topAnimationEnd'', ''topAnimationIteration'',
                ''topAnimationStart''] then
        (Some SyntheticAnimationEvent, [])
      else if topLevelType = ''topTransitionEnd'' then
        (Some SyntheticTransitionEvent, [])
      else if topLevelType = ''topScroll'' then
        (Some SyntheticUIEvent, [])
      else if topLevelType = ''topWheel'' then
        (Some SyntheticWheelEvent, [])
      else if topLevelType \<in> set [''topCopy'', ''topCut'', ''topPaste''] then
        (Some SyntheticClipboardEvent, [])
      else
        (Some SyntheticEvent,
         if DEV \<and> topLevelType \<notin> set knownHTMLTopLevelTypes
         then [unhandled_warning topLevelType] else []))"

text \<open>
  \<open>SimpleEventPlugin.extractEvents\<close>: the event returned (\<open>None\<close> for null) and the
  warnings printed. Every value the read of the table returns is an object or a function,
  so the test \<open>!dispatchConfig\<close> holds exactly when the read returns undefined. The
  function has no throwing statement of its own.
\<close>

definition SimpleEventPlugin_extractEvents ::
  "bool \<Rightarrow> (native_event \<Rightarrow> int) \<Rightarrow> string \<Rightarrow> fiber option \<Rightarrow> native_event \<Rightarrow> obj
     \<Rightarrow> synthetic_event option \<times> string list" where
  "SimpleEventPlugin_extractEvents DEV getEventCharCode topLevelType tInst nativeEv nativeTarget =
     (case property_lookup (topLevelEventsToDispatchConfig SimpleEventPlugin_tables)
             topLevelType of
        None \<Rightarrow> (None, [])
      | Some config \<Rightarrow>
          (case switch_topLevelType DEV getEventCharCode topLevelType nativeEv of
             (None, warnings) \<Rightarrow> (None, warnings)
           | (Some EventConstructor, warnings) \<Rightarrow>
               (Some \<lparr>eventConstructor = EventConstructor,
                      dispatchConfig = config,
                      targetInst = tInst,
                      nativeEvent = nativeEv,
                      nativeEventTarget = nativeTarget,
                      assignedType = None,
                      assignedTarget = None,
                      accumulated = Some TwoPhase\<rparr>,
                warnings)))"


section \<open>SelectEventPlugin\<close>

definition select_config :: dispatch_config where
  "select_config =
     \<lparr>phasedRegistrationNames =
        Some \<lparr>bubbled = ''onSelect'', captured = ''onSelectCapture''\<rparr>,
      directRegistrationName = None,
      dependencies = Some [''topBlur'', ''topContextMenu'', ''topFocus'', ''topKeyDown'',
                           ''topKeyUp'', ''topMouseDown'', ''topMouseUp'',
                           ''topSelectionChange''],
      isInteractive = None\<rparr>"

definition SelectEventPlugin_eventTypes :: "string \<rightharpoonup> dispatch_config" where
  "SelectEventPlugin_eventTypes = [''select'' \<mapsto> select_config]"

text \<open>
  The snapshot \<open>getSelection\<close> returns: \<open>{start, end}\<close> of a text control, or the
  four properties read from \<open>window.getSelection()\<close>. A null property is \<open>None\<close>.
\<close>

datatype selection =
    InputSelection "nat option" "nat option"
  | WindowSelection "obj option" nat "obj option" nat

text \<open>
  The platform as the plugin can observe it during one call: the properties it reads
  from DOM objects and the helpers it imports from modules outside the files modelled
  here (\<open>isListeningToAllDependencies\<close>, \<open>getNodeFromInstance\<close>,
  \<open>isTextInputElement\<close>, \<open>getActiveElement\<close>, \<open>hasSelectionCapabilities\<close>),
  each taken as given. \<open>hasSelectionStart\<close> is the test
  \<open>'selectionStart' in node\<close>; \<open>windowGetSelection\<close> is \<open>None\<close> where
  \<open>window.getSelection\<close> is not defined and otherwise holds the anchor node, anchor
  offset, focus node and focus offset of the object it returns;
  \<open>skipSelectionChangeEvent\<close> is the module constant computed from the document mode,
  and \<open>DOCUMENT_NODE\<close> the constant imported from \<open>HTMLNodeType\<close>.
\<close>

record platform =
  window :: obj
  windowProp :: "obj \<Rightarrow> obj option"
  documentProp :: "obj \<Rightarrow> obj option"
  nodeType :: "obj \<Rightarrow> nat option"
  ownerDocument :: "obj \<Rightarrow> obj option"
  isListeningToAllDependencies :: "string \<Rightarrow> obj \<Rightarrow> bool"
  getNodeFromInstance :: "fiber \<Rightarrow> obj"
  isTextInputElement :: "obj \<Rightarrow> bool"
  contentEditable :: "obj \<Rightarrow> string option"
  getActiveElement :: "obj option"
  hasSelectionStart :: "obj \<Rightarrow> bool"
  hasSelectionCapabilities :: "obj \<Rightarrow> bool"
  selectionStart :: "obj \<Rightarrow> nat option"
  selectionEnd :: "obj \<Rightarrow> nat option"
  windowGetSelection :: "(obj option \<times> nat \<times> obj option \<times> nat) option"
  skipSelectionChangeEvent :: bool
  DOCUMENT_NODE :: nat

text \<open>The four module-level variables of the plugin.\<close>

record select_state =
  activeElement :: "obj option"
  activeElementInst :: "fiber option"
  lastSelection :: "selection option"
  mouseDown :: bool

definition initial_state :: select_state where
  "initial_state =
     \<lparr>activeElement = None, activeElementInst = None, lastSelection = None,
      mouseDown = False\<rparr>"

text \<open>\<open>getSelection\<close>; falling off the end of the function returns undefined, \<open>None\<close>.\<close>

definition getSelection :: "platform \<Rightarrow> obj \<Rightarrow> selection option" where
  "getSelection P node =
     (if hasSelectionStart P node \<and> hasSelectionCapabilities P node then
        Some (InputSelection (selectionStart P node) (selectionEnd P node))
      else
        (case windowGetSelection P of
           Some (aNode, aOffset, fNode, fOffset) \<Rightarrow>
             Some (WindowSelection aNode aOffset fNode fOffset)
         | None \<Rightarrow> None))"

text \<open>
  \<open>shallowEqual\<close> of the fbjs library on two snapshots: the same set of keys and
  identical values under each key.
\<close>

fun shallowEqual :: "selection \<Rightarrow> selection \<Rightarrow> bool" where
  "shallowEqual (InputSelection s1 e1) (InputSelection s2 e2) = (s1 = s2 \<and> e1 = e2)"
| "shallowEqual (WindowSelection an1 ao1 fn1 fo1) (WindowSelection an2 ao2 fn2 fo2) =
     (an1 = an2 \<and> ao1 = ao2 \<and> fn1 = fn2 \<and> fo1 = fo2)"
| "shallowEqual _ _ = False"

text \<open>
  The test \<open>!lastSelection || !shallowEqual(lastSelection, currentSelection)\<close>.
  An undefined current snapshot is stored as \<open>None\<close>, which is falsy like null.
\<close>

definition selection_differs :: "selection option \<Rightarrow> selection option \<Rightarrow> bool" where
  "selection_differs lastSel currentSel =
     (case lastSel of
        None \<Rightarrow> True
      | Some l \<Rightarrow> (case currentSel of None \<Rightarrow> True | Some c \<Rightarrow> \<not> shallowEqual l c))"

definition constructSelectEvent ::
  "platform \<Rightarrow> select_state \<Rightarrow> native_event \<Rightarrow> obj
     \<Rightarrow> synthetic_event option \<times> select_state" where
  "constructSelectEvent P s nativeEv nativeTarget =
     (if mouseDown s \<or> activeElement s = None \<or> activeElement s \<noteq> getActiveElement P
      then (None, s)
      else
        (case activeElement s of
           None \<Rightarrow> (None, s)
         | Some element \<Rightarrow>
             (let currentSelection = getSelection P element in
              if selection_differs (lastSelection s) currentSelection then
                (Some \<lparr>eventConstructor = SyntheticEvent,
                       dispatchConfig = select_config,
                       targetInst = activeElementInst s,
                       nativeEvent = nativeEv,
                       nativeEventTarget = nativeTarget,
                       assignedType = Some ''select'',
                       assignedTarget = Some element,
                       accumulated = Some TwoPhase\<rparr>,
                 s\<lparr>lastSelection := currentSelection\<rparr>)
              else (None, s))))"

text \<open>The document of the native event target, the constant \<open>doc\<close>.\<close>

definition documentOf :: "platform \<Rightarrow> obj \<Rightarrow> obj option" where
  "documentOf P nativeTarget =
     (if windowProp P nativeTarget = Some nativeTarget then documentProp P nativeTarget
      else if nodeType P nativeTarget = Some (DOCUMENT_NODE P) then Some nativeTarget
      else ownerDocument P nativeTarget)"

text \<open>The guard \<open>!doc || !isListeningToAllDependencies('onSelect', doc)\<close>, negated.\<close>

definition listening :: "platform \<Rightarrow> obj \<Rightarrow> bool" where
  "listening P nativeTarget =
     (case documentOf P nativeTarget of
        None \<Rightarrow> False
      | Some doc \<Rightarrow> isListeningToAllDependencies P ''onSelect'' doc)"

definition targetNodeOf :: "platform \<Rightarrow> fiber option \<Rightarrow> obj" where
  "targetNodeOf P tInst =
     (case tInst of Some inst \<Rightarrow> getNodeFromInstance P inst | None \<Rightarrow> window P)"

text \<open>
  The part of \<open>extractEvents\<close> below the listener check: the \<open>switch\<close> and the
  final \<open>return null\<close>.
\<close>

definition select_switch ::
  "platform \<Rightarrow> select_state \<Rightarrow> string \<Rightarrow> fiber option \<Rightarrow> native_event \<Rightarrow> obj
     \<Rightarrow> synthetic_event option \<times> select_state" where
  "select_switch P s topLevelType tInst nativeEv nativeTarget =
     (let targetNode = targetNodeOf P tInst in
      if topLevelType = ''topFocus'' then
        (if isTextInputElement P targetNode \<or> contentEditable P targetNode = Some ''true''
         then (None, s\<lparr>activeElement := Some targetNode,
                        activeElementInst := tInst,
                        lastSelection := None\<rparr>)
         else (None, s))
      else if topLevelType = ''topBlur'' then
        (None, s\<lparr>activeElement := None, activeElementInst := None, lastSelection := None\<rparr>)
      else if topLevelType = ''topMouseDown'' then
        (None, s\<lparr>mouseDown := True\<rparr>)
      else if topLevelType \<in> set [''topContextMenu'', ''topMouseUp''] then
        constructSelectEvent P (s\<lparr>mouseDown := False\<rparr>) nativeEv nativeTarget
      else if topLevelType = ''topSelectionChange'' then
        (if skipSelectionChangeEvent P then (None, s)
         else constructSelectEvent P s nativeEv nativeTarget)
      else if topLevelType \<in> set [''topKeyDown'', ''topKeyUp''] then
        constructSelectEvent P s nativeEv nativeTarget
      else (None, s))"

definition SelectEventPlugin_extractEvents ::
  "platform \<Rightarrow> select_state \<Rightarrow> string \<Rightarrow> fiber option \<Rightarrow> native_event \<Rightarrow> obj
     \<Rightarrow> synthetic_event option \<times> select_state" where
  "SelectEventPlugin_extractEvents P s topLevelType tInst nativeEv nativeTarget =
     (if \<not> listening P nativeTarget then (None, s)
      else select_switch P s topLevelType tInst nativeEv nativeTarget)"

subsection \<open>Sequences of native events\<close>

text \<open>
  One call of \<open>extractEvents\<close>: the platform at that moment and the four arguments.
\<close>

record native_step =
  stepPlatform :: platform
  stepType :: string
  stepTargetInst :: "fiber option"
  stepNativeEvent :: native_event
  stepNativeTarget :: obj

definition extract_step :: "select_state \<Rightarrow> native_step \<Rightarrow> synthetic_event option \<times> select_state" where
  "extract_step s st =
     SelectEventPlugin_extractEvents (stepPlatform st) s (stepType st) (stepTargetInst st)
       (stepNativeEvent st) (stepNativeTarget st)"

text \<open>The plugin run over a sequence: what each call returns, and the final state.\<close>

fun run :: "select_state \<Rightarrow> native_step list \<Rightarrow> synthetic_event option list \<times> select_state" where
  "run s [] = ([], s)"
| "run s (st # rest) =
     (case extract_step s st of
        (ev, s') \<Rightarrow> (case run s' rest of (evs, s'') \<Rightarrow> (ev # evs, s'')))"

text \<open>
  The plugin as it would be without the listener check, for comparison: every call goes
  straight to the \<open>switch\<close>.
\<close>

definition extract_step_without_check ::
  "select_state \<Rightarrow> native_step \<Rightarrow> synthetic_event option \<times> select_state" where
  "extract_step_without_check s st =
     select_switch (stepPlatform st) s (stepType st) (stepTargetInst st)
       (stepNativeEvent st) (stepNativeTarget st)"

fun run_without_check ::
  "select_state \<Rightarrow> native_step list \<Rightarrow> synthetic_event option list \<times> select_state" where
  "run_without_check s [] = ([], s)"
| "run_without_check s (st # rest) =
     (case extract_step_without_check s st of
        (ev, s') \<Rightarrow> (case run_without_check s' rest of (evs, s'') \<Rightarrow> (ev # evs, s'')))"

definition stepListening :: "native_step \<Rightarrow> bool" where
  "stepListening st = listening (stepPlatform st) (stepNativeTarget st)"

text \<open>
  The events that reach a registered listener: those returned by a call during which the
  document is listening.
\<close>

fun delivered :: "native_step list \<Rightarrow> synthetic_event option list \<Rightarrow> synthetic_event option list" where
  "delivered (st # sts) (ev # evs) = (if stepListening st then ev else None) # delivered sts evs"
| "delivered _ _ = []"

section \<open>Notions used in the statements\<close>

text \<open>
  The shape of an entry that \<open>addEventTypeNameToConfig\<close> writes for a capitalized
  name: phased registration names, no direct registration name, one dependency.
\<close>

definition entry_for :: "string \<Rightarrow> dispatch_config \<Rightarrow> bool" where
  "entry_for capitalized config =
     (phasedRegistrationNames config =
        Some \<lparr>bubbled = ''on'' @ capitalized, captured = ''on'' @ capitalized @ ''Capture''\<rparr>
      \<and> directRegistrationName config = None
      \<and> dependencies config = Some [''top'' @ capitalized])"

text \<open>Every entry of both tables has that shape, under its own key.\<close>

definition tables_ok :: "tables \<Rightarrow> bool" where
  "tables_ok T =
     ((\<forall>name config. eventTypes T name = Some config \<longrightarrow>
         (\<exists>cap. capitalizedEvent name = Some cap \<and> entry_for cap config))
    \<and> (\<forall>t config. topLevelEventsToDispatchConfig T t = Some config \<longrightarrow>
         (\<exists>cap. t = ''top'' @ cap \<and> entry_for cap config)))"

text \<open>The native kinds under which a list of logical names is filed.\<close>

definition topEvents :: "string list \<Rightarrow> string set" where
  "topEvents es = {t. \<exists>e \<in> set es. \<exists>cap. capitalizedEvent e = Some cap \<and> t = ''top'' @ cap}"

text \<open>The labels of the \<open>case\<close> clauses in the \<open>switch\<close> of SimpleEventPlugin.\<close>

definition switch_case_labels :: "string list" where
  "switch_case_labels =
    [''topKeyPress'', ''topKeyDown'', ''topKeyUp'', ''topBlur'', ''topFocus'', ''topClick'',
     ''topDoubleClick'', ''topMouseDown'', ''topMouseMove'', ''topMouseUp'', ''topMouseOut'',
     ''topMouseOver'', ''topContextMenu'', ''topDrag'', ''topDragEnd'', ''topDragEnter'',
     ''topDragExit'', ''topDragLeave'', ''topDragOver'', ''topDragStart'', ''topDrop'',
     ''topTouchCancel'', ''topTouchEnd'', ''topTouchMove'', ''topTouchStart'',
     ''topAnimationEnd'', ''topAnimationIteration'', ''topAnimationStart'',
     ''topTransitionEnd'', ''topScroll'', ''topWheel'', ''topCopy'', ''topCut'',
     ''topPaste'']"

text \<open>
  A decoder to run the examples with in place of \<open>getEventCharCode\<close>: the
  \<open>charCode\<close> property, 0 when it is absent.
\<close>

definition charCode_of :: "native_event \<Rightarrow> int" where
  "charCode_of nativeEv = (case charCode nativeEv of Some c \<Rightarrow> c | None \<Rightarrow> 0)"

text \<open>
  A call of the selection plugin that records a new focused element: a \<open>topFocus\<close>
  handled while the document is listening, on a text input or a content-editable node.
\<close>

definition records_focus :: "native_step \<Rightarrow> bool" where
  "records_focus st =
     (stepType st = ''topFocus'' \<and> stepListening st \<and>
      (isTextInputElement (stepPlatform st) (targetNodeOf (stepPlatform st) (stepTargetInst st))
       \<or> contentEditable (stepPlatform st) (targetNodeOf (stepPlatform st) (stepTargetInst st))
            = Some ''true''))"

text \<open>
  A small page to run the examples on. Object 0 is the window, 1 its document; the Fiber
  \<open>n\<close> has the DOM node \<open>10 + n\<close>; nodes 11 and 12 are text inputs and every other
  node is a plain element. The arguments are whether the document is listening, the
  element the platform reports as focused, and the caret range of the inputs.
\<close>

definition example_platform :: "bool \<Rightarrow> obj option \<Rightarrow> nat \<Rightarrow> nat \<Rightarrow> platform" where
  "example_platform isListening active selStart selEnd =
     \<lparr>window = 0,
      windowProp = (\<lambda>node. if node = 0 then Some 0 else None),
      documentProp = (\<lambda>node. if node = 0 then Some 1 else None),
      nodeType = (\<lambda>node. if node = 0 then None else if node = 1 then Some 9 else Some 1),
      ownerDocument = (\<lambda>node. if node = 0 \<or> node = 1 then None else Some 1),
      isListeningToAllDependencies = (\<lambda>name doc. isListening),
      getNodeFromInstance = (\<lambda>inst. 10 + inst),
      isTextInputElement = (\<lambda>node. node = 11 \<or> node = 12),
      contentEditable = (\<lambda>node. if node = 0 \<or> node = 1 then None else Some ''inherit''),
      getActiveElement = active,
      hasSelectionStart = (\<lambda>node. node = 11 \<or> node = 12),
      hasSelectionCapabilities = (\<lambda>node. node = 11 \<or> node = 12),
      selectionStart = (\<lambda>node. Some selStart),
      selectionEnd = (\<lambda>node. Some selEnd),
      windowGetSelection = Some (None, 0, None, 0),
      skipSelectionChangeEvent = False,
      DOCUMENT_NODE = 9\<rparr>"

definition plain_event :: native_event where
  "plain_event = \<lparr>button = None, charCode = None, keyCode = None\<rparr>"

text \<open>A native event of the given kind on the node of the given Fiber.\<close>

definition example_step :: "platform \<Rightarrow> string \<Rightarrow> fiber \<Rightarrow> native_step" where
  "example_step P t inst =
     \<lparr>stepPlatform = P, stepType = t, stepTargetInst = Some inst,
      stepNativeEvent = plain_event, stepNativeTarget = getNodeFromInstance P inst\<rparr>"

text \<open>The select event the plugin builds, as a function of what it is built from.\<close>

definition select_event :: "fiber option \<Rightarrow> obj \<Rightarrow> native_event \<Rightarrow> obj \<Rightarrow> synthetic_event" where
  "select_event inst element nativeEv nativeTarget =
     \<lparr>eventConstructor = SyntheticEvent,
      dispatchConfig = select_config,
      targetInst = inst,
      nativeEvent = nativeEv,
      nativeEventTarget = nativeTarget,
      assignedType = Some ''select'',
      assignedTarget = Some element,
      accumulated = Some TwoPhase\<rparr>"

section \<open>The tables of SimpleEventPlugin\<close>

lemma addEventTypeNameToConfig_ok:
  "event \<noteq> [] \<Longrightarrow> \<exists>T'. addEventTypeNameToConfig event b T = Some T'"
  by (cases event) (simp_all add: addEventTypeNameToConfig_def Let_def)

lemma forEach_add_ok:
  "[] \<notin> set es \<Longrightarrow> \<exists>T'. forEach_add es b T = Some T'"
proof (induction es arbitrary: T)
  case Nil
  show ?case by simp
next
  case (Cons e es)
  from Cons.prems have "e \<noteq> []" by auto
  then obtain T1 where T1: "addEventTypeNameToConfig e b T = Some T1"
    using addEventTypeNameToConfig_ok by blast
  from Cons.prems have "[] \<notin> set es" by simp
  from Cons.IH [OF this] obtain T2 where "forEach_add es b T1 = Some T2" by blast
  with T1 show ?case by simp
qed

lemma interactive_nonempty: "[] \<notin> set interactiveEventTypeNames"
  by (simp add: interactiveEventTypeNames_def)

lemma nonInteractive_nonempty: "[] \<notin> set nonInteractiveEventTypeNames"
  by (simp add: nonInteractiveEventTypeNames_def)

lemma module_load_ok: "module_load = Some SimpleEventPlugin_tables"
proof -
  obtain T1 where T1: "forEach_add interactiveEventTypeNames True empty_tables = Some T1"
    using forEach_add_ok [OF interactive_nonempty] by blast
  obtain T2 where T2: "forEach_add nonInteractiveEventTypeNames False T1 = Some T2"
    using forEach_add_ok [OF nonInteractive_nonempty] by blast
  from T1 T2 have m: "module_load = Some T2" by (simp add: module_load_def)
  show ?thesis unfolding SimpleEventPlugin_tables_def m by simp
qed

lemma tables_ok_empty: "tables_ok empty_tables"
  by (simp add: tables_ok_def empty_tables_def)

lemma tables_ok_add:
  assumes "tables_ok T" and "addEventTypeNameToConfig event b T = Some T'"
  shows "tables_ok T'"
proof (cases event)
  case Nil
  with assms(2) show ?thesis by (simp add: addEventTypeNameToConfig_def)
next
  case (Cons c cs)
  with assms show ?thesis
    by (auto simp: addEventTypeNameToConfig_def Let_def tables_ok_def entry_for_def
             split: if_splits)
qed

lemma tables_ok_forEach:
  "tables_ok T \<Longrightarrow> forEach_add es b T = Some T' \<Longrightarrow> tables_ok T'"
proof (induction es arbitrary: T)
  case Nil
  then show ?case by simp
next
  case (Cons e es)
  then show ?case
    by (auto split: option.splits dest: tables_ok_add)
qed

lemma tables_ok_loaded: "tables_ok SimpleEventPlugin_tables"
proof -
  from module_load_ok obtain T1 where
    T1: "forEach_add interactiveEventTypeNames True empty_tables = Some T1" and
    T2: "forEach_add nonInteractiveEventTypeNames False T1 = Some SimpleEventPlugin_tables"
    by (auto simp: module_load_def split: option.splits)
  from tables_ok_forEach [OF tables_ok_empty T1] have "tables_ok T1" .
  from tables_ok_forEach [OF this T2] show ?thesis .
qed

lemma keys_add:
  assumes "addEventTypeNameToConfig event b T = Some T'"
  shows "dom (eventTypes T') = insert event (dom (eventTypes T))"
    and "\<exists>cap. capitalizedEvent event = Some cap \<and>
           dom (topLevelEventsToDispatchConfig T') =
             insert (''top'' @ cap) (dom (topLevelEventsToDispatchConfig T))"
  using assms
  by (auto simp: addEventTypeNameToConfig_def Let_def split: option.splits)

lemma topEvents_Cons:
  "capitalizedEvent e = Some cap \<Longrightarrow> topEvents (e # es) = insert (''top'' @ cap) (topEvents es)"
  by (auto simp: topEvents_def)

lemma topEvents_Nil: "topEvents [] = {}"
  by (simp add: topEvents_def)

lemma keys_forEach:
  "forEach_add es b T = Some T' \<Longrightarrow>
     dom (eventTypes T') = set es \<union> dom (eventTypes T) \<and>
     dom (topLevelEventsToDispatchConfig T') =
       topEvents es \<union> dom (topLevelEventsToDispatchConfig T)"
proof (induction es arbitrary: T)
  case Nil
  then show ?case by (simp add: topEvents_Nil)
next
  case (Cons e es)
  from Cons.prems obtain T1 where
    T1: "addEventTypeNameToConfig e b T = Some T1" and R: "forEach_add es b T1 = Some T'"
    by (auto split: option.splits)
  from keys_add [OF T1] obtain cap where
    c: "capitalizedEvent e = Some cap" and
    d1: "dom (eventTypes T1) = insert e (dom (eventTypes T))" and
    d2: "dom (topLevelEventsToDispatchConfig T1) =
           insert (''top'' @ cap) (dom (topLevelEventsToDispatchConfig T))"
    by blast
  from Cons.IH [OF R] d1 d2 topEvents_Cons [OF c, of es] show ?case by auto
qed

lemma keys_loaded:
  "dom (eventTypes SimpleEventPlugin_tables) =
     set (interactiveEventTypeNames @ nonInteractiveEventTypeNames)"
  "dom (topLevelEventsToDispatchConfig SimpleEventPlugin_tables) =
     topEvents (interactiveEventTypeNames @ nonInteractiveEventTypeNames)"
proof -
  from module_load_ok obtain T1 where
    T1: "forEach_add interactiveEventTypeNames True empty_tables = Some T1" and
    T2: "forEach_add nonInteractiveEventTypeNames False T1 = Some SimpleEventPlugin_tables"
    by (auto simp: module_load_def split: option.splits)
  from keys_forEach [OF T1] keys_forEach [OF T2]
  show "dom (eventTypes SimpleEventPlugin_tables) =
     set (interactiveEventTypeNames @ nonInteractiveEventTypeNames)"
    by (auto simp: empty_tables_def)
  from keys_forEach [OF T1] keys_forEach [OF T2]
  show "dom (topLevelEventsToDispatchConfig SimpleEventPlugin_tables) =
     topEvents (interactiveEventTypeNames @ nonInteractiveEventTypeNames)"
    by (auto simp: empty_tables_def topEvents_def)
qed

lemma topEvents_loaded:
  "topEvents (interactiveEventTypeNames @ nonInteractiveEventTypeNames) =
     set [''topBlur'', ''topCancel'', ''topClick'', ''topClose'', ''topContextMenu'',
      ''topCopy'', ''topCut'', ''topDoubleClick'', ''topDragEnd'', ''topDragStart'',
      ''topDrop'', ''topFocus'', ''topInput'', ''topInvalid'', ''topKeyDown'',
      ''topKeyPress'', ''topKeyUp'', ''topMouseDown'', ''topMouseUp'', ''topPaste'',
      ''topPause'', ''topPlay'', ''topRateChange'', ''topReset'', ''topSeeked'',
      ''topSubmit'', ''topTouchCancel'', ''topTouchEnd'', ''topTouchStart'',
      ''topVolumeChange'', ''topAbort'', ''topAnimationEnd'', ''topAnimationIteration'',
      ''topAnimationStart'', ''topCanPlay'', ''topCanPlayThrough'', ''topDrag'',
      ''topDragEnter'', ''topDragExit'', ''topDragLeave'', ''topDragOver'',
      ''topDurationChange'', ''topEmptied'', ''topEncrypted'', ''topEnded'',
      ''topError'', ''topLoad'', ''topLoadedData'', ''topLoadedMetadata'',
      ''topLoadStart'', ''topMouseMove'', ''topMouseOut'', ''topMouseOver'',
      ''topPlaying'', ''topProgress'', ''topScroll'', ''topSeeking'', ''topStalled'',
      ''topSuspend'', ''topTimeUpdate'', ''topToggle'', ''topTouchMove'',
      ''topTransitionEnd'', ''topWaiting'', ''topWheel'']"
  by (simp add: interactiveEventTypeNames_def nonInteractiveEventTypeNames_def
        topEvents_Cons topEvents_Nil toUpperCase_def)

section \<open>The switch of SimpleEventPlugin\<close>

lemma has_config:
  "t \<in> topEvents (interactiveEventTypeNames @ nonInteractiveEventTypeNames) \<Longrightarrow>
     \<exists>config. topLevelEventsToDispatchConfig SimpleEventPlugin_tables t = Some config"
  using keys_loaded(2) by blast

lemma no_config:
  "t \<notin> topEvents (interactiveEventTypeNames @ nonInteractiveEventTypeNames) \<Longrightarrow>
     topLevelEventsToDispatchConfig SimpleEventPlugin_tables t = None"
  using keys_loaded(2) by blast

lemma switch_default:
  "t \<notin> set switch_case_labels \<Longrightarrow>
     switch_topLevelType DEV g t nativeEv =
       (Some SyntheticEvent,
        if DEV \<and> t \<notin> set knownHTMLTopLevelTypes then [unhandled_warning t] else [])"
  by (simp add: switch_topLevelType_def switch_case_labels_def)

lemma switch_warning_only_unknown:
  "t \<in> set knownHTMLTopLevelTypes \<Longrightarrow> snd (switch_topLevelType DEV g t nativeEv) = []"
  by (simp add: switch_topLevelType_def)

lemma switch_warnings:
  "snd (switch_topLevelType DEV g t nativeEv) =
     (if t \<notin> set switch_case_labels \<and> DEV \<and> t \<notin> set knownHTMLTopLevelTypes
      then [unhandled_warning t] else [])"
  by (simp add: switch_topLevelType_def switch_case_labels_def)

lemma switch_warning_only_default:
  "t \<in> set switch_case_labels \<Longrightarrow> snd (switch_topLevelType DEV g t nativeEv) = []"
  by (simp add: switch_warnings)

lemma configured_kind_cases:
  "t \<in> topEvents (interactiveEventTypeNames @ nonInteractiveEventTypeNames) \<Longrightarrow>
     t \<in> set switch_case_labels \<or> t \<in> set knownHTMLTopLevelTypes"
proof -
  have "topEvents (interactiveEventTypeNames @ nonInteractiveEventTypeNames)
          \<subseteq> set switch_case_labels \<union> set knownHTMLTopLevelTypes"
    unfolding topEvents_loaded
    by (simp add: switch_case_labels_def knownHTMLTopLevelTypes_def)
  then show "t \<in> topEvents (interactiveEventTypeNames @ nonInteractiveEventTypeNames) \<Longrightarrow>
     t \<in> set switch_case_labels \<or> t \<in> set knownHTMLTopLevelTypes"
    by blast
qed

lemma property_lookup_own:
  "table key = Some config \<Longrightarrow> property_lookup table key = Some config"
  by (simp add: property_lookup_def)

lemma property_lookup_inherited:
  "table key = None \<Longrightarrow> key \<in> set Object_prototype_members \<Longrightarrow>
     property_lookup table key = Some inherited_member"
  by (simp add: property_lookup_def)

lemma property_lookup_undefined:
  "table key = None \<Longrightarrow> key \<notin> set Object_prototype_members \<Longrightarrow>
     property_lookup table key = None"
  by (simp add: property_lookup_def)

lemma members_not_own:
  "set Object_prototype_members
     \<inter> topEvents (interactiveEventTypeNames @ nonInteractiveEventTypeNames) = {}"
  unfolding topEvents_loaded by (simp add: Object_prototype_members_def)

lemma members_not_named:
  "set Object_prototype_members
     \<inter> (set switch_case_labels \<union> set knownHTMLTopLevelTypes) = {}"
  by (simp add: Object_prototype_members_def switch_case_labels_def knownHTMLTopLevelTypes_def)

lemma extract_warnings:
  "snd (SimpleEventPlugin_extractEvents DEV g t ti nativeEv nt) =
     (case property_lookup (topLevelEventsToDispatchConfig SimpleEventPlugin_tables) t of
        None \<Rightarrow> []
      | Some config \<Rightarrow> snd (switch_topLevelType DEV g t nativeEv))"
  by (simp add: SimpleEventPlugin_extractEvents_def split: option.splits prod.splits)

text \<open>
  With the tables as the module fills them, every registered kind that reaches the default
  case is in \<open>knownHTMLTopLevelTypes\<close>, so the warning is printed exactly in a debug
  build for a name inherited from \<open>Object.prototype\<close>.
\<close>

lemma warning_printed_iff:
  "snd (SimpleEventPlugin_extractEvents DEV g t ti nativeEv nt) =
     (if DEV \<and> t \<in> set Object_prototype_members then [unhandled_warning t] else [])"
proof (cases "topLevelEventsToDispatchConfig SimpleEventPlugin_tables t")
  case (Some config)
  then have own: "t \<in> topEvents (interactiveEventTypeNames @ nonInteractiveEventTypeNames)"
    using keys_loaded(2) by blast
  from configured_kind_cases [OF own]
  have "snd (switch_topLevelType DEV g t nativeEv) = []"
    using switch_warning_only_default switch_warning_only_unknown by blast
  moreover from own members_not_own have "t \<notin> set Object_prototype_members" by blast
  ultimately show ?thesis
    using Some by (simp add: extract_warnings property_lookup_own)
next
  case None
  show ?thesis
  proof (cases "t \<in> set Object_prototype_members")
    case True
    with members_not_named
    have "t \<notin> set switch_case_labels" and "t \<notin> set knownHTMLTopLevelTypes"
      by blast+
    then have "snd (switch_topLevelType DEV g t nativeEv) =
                 (if DEV then [unhandled_warning t] else [])"
      by (simp add: switch_warnings)
    with None True show ?thesis
      by (simp add: extract_warnings property_lookup_inherited)
  next
    case False
    with None show ?thesis
      by (simp add: extract_warnings property_lookup_undefined)
  qed
qed

lemma entry_of_name:
  assumes "eventTypes SimpleEventPlugin_tables X = Some config"
  shows "\<exists>cap. capitalizedEvent X = Some cap \<and> entry_for cap config"
  using assms tables_ok_loaded by (simp add: tables_ok_def)



lemma keyPress_configured:
  "\<exists>config. topLevelEventsToDispatchConfig SimpleEventPlugin_tables ''topKeyPress'' = Some config"
  by (rule has_config) (simp add: topEvents_loaded)

lemma submit_configured:
  "\<exists>config. topLevelEventsToDispatchConfig SimpleEventPlugin_tables ''topSubmit'' = Some config"
  by (rule has_config) (simp add: topEvents_loaded)

lemma selectionChange_not_configured:
  "property_lookup (topLevelEventsToDispatchConfig SimpleEventPlugin_tables)
     ''topSelectionChange'' = None"
proof -
  have "topLevelEventsToDispatchConfig SimpleEventPlugin_tables ''topSelectionChange'' = None"
    by (rule no_config) (simp add: topEvents_loaded)
  moreover have "''topSelectionChange'' \<notin> set Object_prototype_members"
    by (simp add: Object_prototype_members_def)
  ultimately show ?thesis by (rule property_lookup_undefined)
qed

lemma toString_inherited:
  "property_lookup (topLevelEventsToDispatchConfig SimpleEventPlugin_tables)
     ''toString'' = Some inherited_member"
proof -
  have "topLevelEventsToDispatchConfig SimpleEventPlugin_tables ''toString'' = None"
    by (rule no_config) (simp add: topEvents_loaded)
  moreover have "''toString'' \<in> set Object_prototype_members"
    by (simp add: Object_prototype_members_def)
  ultimately show ?thesis by (rule property_lookup_inherited)
qed

lemma doubleClick_registered:
  "\<exists>config. eventTypes SimpleEventPlugin_tables ''doubleClick'' = Some config"
proof -
  have "''doubleClick'' \<in> dom (eventTypes SimpleEventPlugin_tables)"
    unfolding keys_loaded(1) by (simp add: interactiveEventTypeNames_def)
  then show ?thesis by blast
qed


lemma printable_keyPress_extracted:
  assumes "g nativeEv \<noteq> 0"
  shows "\<exists>config. SimpleEventPlugin_extractEvents DEV g ''topKeyPress'' ti nativeEv nt =
           (Some \<lparr>eventConstructor = SyntheticKeyboardEvent, dispatchConfig = config,
                  targetInst = ti, nativeEvent = nativeEv, nativeEventTarget = nt,
                  assignedType = None, assignedTarget = None,
                  accumulated = Some TwoPhase\<rparr>, [])"
  using keyPress_configured assms
  by (auto simp: SimpleEventPlugin_extractEvents_def switch_topLevelType_def
        property_lookup_own)

section \<open>Claims about SimpleEventPlugin\<close>

text \<open>
  Claim C3. A native event of kind \<open>topClick\<close> whose \<open>button\<close> is 2 (the secondary
  button) yields no synthetic event from \<open>SimpleEventPlugin.extractEvents\<close>, and no
  warning. Lemma \<open>left_click_extracted\<close> shows the same kind with any other button
  yields a mouse event, so it is the button test that discards it.
\<close>

theorem right_click_discarded:
  "button nativeEv = Some 2 \<Longrightarrow>
     SimpleEventPlugin_extractEvents DEV g ''topClick'' ti nativeEv nt = (None, [])"
  by (simp add: SimpleEventPlugin_extractEvents_def switch_topLevelType_def
           split: option.splits)

theorem right_click_discarded_witness:
  "button \<lparr>button = Some 2, charCode = None, keyCode = None\<rparr> = Some 2 \<and>
   SimpleEventPlugin_extractEvents True charCode_of ''topClick'' (Some 1)
     \<lparr>button = Some 2, charCode = None, keyCode = None\<rparr> 7 = (None, [])"
  using right_click_discarded
    [of "\<lparr>button = Some 2, charCode = None, keyCode = None\<rparr>" True charCode_of "Some 1" 7]
  by simp

text \<open>
  Claim C4. A native event of kind \<open>topKeyPress\<close> whose decoded character code
  (the value of \<open>getEventCharCode\<close>) is 0 yields no synthetic event from
  \<open>SimpleEventPlugin.extractEvents\<close>. Lemma \<open>printable_keyPress_extracted\<close> shows
  a nonzero code yields a keyboard event.
\<close>

theorem keypress_zero_discarded:
  "g nativeEv = 0 \<Longrightarrow>
     SimpleEventPlugin_extractEvents DEV g ''topKeyPress'' ti nativeEv nt = (None, [])"
  by (simp add: SimpleEventPlugin_extractEvents_def switch_topLevelType_def
           split: option.splits)

theorem keypress_zero_discarded_witness:
  "charCode_of \<lparr>button = None, charCode = Some 0, keyCode = Some 112\<rparr> = 0 \<and>
   SimpleEventPlugin_extractEvents False charCode_of ''topKeyPress'' (Some 1)
     \<lparr>button = None, charCode = Some 0, keyCode = Some 112\<rparr> 7 = (None, [])"
  using keypress_zero_discarded
    [of charCode_of "\<lparr>button = None, charCode = Some 0, keyCode = Some 112\<rparr>" False "Some 1" 7]
  by (simp add: charCode_of_def)

text \<open>
  Claim C5, as stated, fails: for a native kind that the classifier does not know at all,
  such as \<open>topSelectionChange\<close>, the read of \<open>topLevelEventsToDispatchConfig\<close>
  returns undefined, and \<open>extractEvents\<close> returns null before the \<open>switch\<close> is
  reached. No event of the generic shape is made.
\<close>

theorem unconfigured_kind_counterexample:
  "''topSelectionChange'' \<notin> set switch_case_labels \<and>
   SimpleEventPlugin_extractEvents True charCode_of ''topSelectionChange'' (Some 1)
     \<lparr>button = None, charCode = None, keyCode = None\<rparr> 7 = (None, [])"
  by (simp add: switch_case_labels_def SimpleEventPlugin_extractEvents_def
        selectionChange_not_configured)

text \<open>
  Claim C5, amended. For a native kind that no \<open>case\<close> of the \<open>switch\<close> names:
  if the read of the table yields a value, which is the dispatch configuration registered
  for the kind or a member inherited from \<open>Object.prototype\<close> under that name,
  \<open>extractEvents\<close> returns an event of the generic shape \<open>SyntheticEvent\<close> carrying
  that value, with two-phase accumulation requested, and prints the warning exactly when
  the build is a debug build and the kind is absent from \<open>knownHTMLTopLevelTypes\<close>; if
  the read yields nothing, it returns no event and prints nothing. In a release build
  nothing is printed for any kind. The model has no failing branch, as the function has
  no throwing statement.
\<close>

theorem unrecognized_kind_fallback:
  "t \<notin> set switch_case_labels \<Longrightarrow>
     SimpleEventPlugin_extractEvents DEV g t ti nativeEv nt =
       (case property_lookup (topLevelEventsToDispatchConfig SimpleEventPlugin_tables) t of
          None \<Rightarrow> (None, [])
        | Some config \<Rightarrow>
            (Some \<lparr>eventConstructor = SyntheticEvent, dispatchConfig = config,
                   targetInst = ti, nativeEvent = nativeEv, nativeEventTarget = nt,
                   assignedType = None, assignedTarget = None,
                   accumulated = Some TwoPhase\<rparr>,
             if DEV \<and> t \<notin> set knownHTMLTopLevelTypes then [unhandled_warning t] else []))
     \<and> snd (SimpleEventPlugin_extractEvents False g t ti nativeEv nt) = []"
  by (simp add: SimpleEventPlugin_extractEvents_def switch_default extract_warnings
        switch_warnings split: option.splits)

theorem unrecognized_kind_fallback_witness:
  "''topSubmit'' \<notin> set switch_case_labels \<and>
   map_option eventConstructor
     (fst (SimpleEventPlugin_extractEvents True charCode_of ''topSubmit'' (Some 1)
        \<lparr>button = None, charCode = None, keyCode = None\<rparr> 7)) = Some SyntheticEvent \<and>
   snd (SimpleEventPlugin_extractEvents True charCode_of ''topSubmit'' (Some 1)
        \<lparr>button = None, charCode = None, keyCode = None\<rparr> 7) = [] \<and>
   ''toString'' \<notin> set switch_case_labels \<and>
   SimpleEventPlugin_extractEvents True charCode_of ''toString'' (Some 1)
        \<lparr>button = None, charCode = None, keyCode = None\<rparr> 7 =
     (Some \<lparr>eventConstructor = SyntheticEvent, dispatchConfig = inherited_member,
            targetInst = Some 1,
            nativeEvent = \<lparr>button = None, charCode = None, keyCode = None\<rparr>,
            nativeEventTarget = 7, assignedType = None, assignedTarget = None,
            accumulated = Some TwoPhase\<rparr>,
      [unhandled_warning ''toString'']) \<and>
   snd (SimpleEventPlugin_extractEvents False charCode_of ''toString'' (Some 1)
        \<lparr>button = None, charCode = None, keyCode = None\<rparr> 7) = []"
proof -
  let ?ev = "\<lparr>button = None, charCode = None, keyCode = None\<rparr>"
  have l: "''topSubmit'' \<notin> set switch_case_labels"
    by (simp add: switch_case_labels_def)
  obtain config where
    "topLevelEventsToDispatchConfig SimpleEventPlugin_tables ''topSubmit'' = Some config"
    using submit_configured by blast
  then have c: "property_lookup (topLevelEventsToDispatchConfig SimpleEventPlugin_tables)
                  ''topSubmit'' = Some config"
    by (rule property_lookup_own)
  have k: "''topSubmit'' \<in> set knownHTMLTopLevelTypes"
    by (simp add: knownHTMLTopLevelTypes_def)
  from unrecognized_kind_fallback [OF l, of True charCode_of "Some 1" ?ev 7] c k
  have registered:
    "map_option eventConstructor
       (fst (SimpleEventPlugin_extractEvents True charCode_of ''topSubmit'' (Some 1) ?ev 7))
       = Some SyntheticEvent"
    "snd (SimpleEventPlugin_extractEvents True charCode_of ''topSubmit'' (Some 1) ?ev 7) = []"
    by simp_all
  have m: "''toString'' \<notin> set switch_case_labels"
    by (simp add: switch_case_labels_def)
  have u: "''toString'' \<notin> set knownHTMLTopLevelTypes"
    by (simp add: knownHTMLTopLevelTypes_def)
  from unrecognized_kind_fallback [OF m, of True charCode_of "Some 1" ?ev 7] toString_inherited u
  have debug:
    "SimpleEventPlugin_extractEvents True charCode_of ''toString'' (Some 1) ?ev 7 =
       (Some \<lparr>eventConstructor = SyntheticEvent, dispatchConfig = inherited_member,
              targetInst = Some 1, nativeEvent = ?ev, nativeEventTarget = 7,
              assignedType = None, assignedTarget = None, accumulated = Some TwoPhase\<rparr>,
        [unhandled_warning ''toString''])"
    by simp
  from unrecognized_kind_fallback [OF m, of False charCode_of "Some 1" ?ev 7, THEN conjunct2]
  have release:
    "snd (SimpleEventPlugin_extractEvents False charCode_of ''toString'' (Some 1) ?ev 7) = []" .
  from l registered m debug release show ?thesis by (intro conjI)
qed

section \<open>The events the plugins return and their configurations\<close>

text \<open>
  Under a name inherited from \<open>Object.prototype\<close> SimpleEventPlugin returns an event
  that carries the inherited member, which has no phased registration names, and still
  asks for two-phase accumulation, as it does for every event.
\<close>

lemma inherited_name_event:
  "SimpleEventPlugin_extractEvents DEV g ''toString'' ti nativeEv nt =
     (Some \<lparr>eventConstructor = SyntheticEvent, dispatchConfig = inherited_member,
            targetInst = ti, nativeEvent = nativeEv, nativeEventTarget = nt,
            assignedType = None, assignedTarget = None, accumulated = Some TwoPhase\<rparr>,
      if DEV then [unhandled_warning ''toString''] else [])"
  by (simp add: SimpleEventPlugin_extractEvents_def toString_inherited switch_topLevelType_def
        knownHTMLTopLevelTypes_def)

lemma select_registered:
  "SelectEventPlugin_eventTypes X = Some config \<Longrightarrow> X = ''select'' \<and> config = select_config"
  by (auto simp: SelectEventPlugin_eventTypes_def split: if_splits)



lemma select_switch_cases:
  "select_switch P s t ti nativeEv nt = constructSelectEvent P s nativeEv nt
   \<or> select_switch P s t ti nativeEv nt =
        constructSelectEvent P (s\<lparr>mouseDown := False\<rparr>) nativeEv nt
   \<or> fst (select_switch P s t ti nativeEv nt) = None"
  by (simp add: select_switch_def Let_def)



section \<open>Claims about the dispatch configurations\<close>

text \<open>
  Claim C7. For every logical event \<open>X\<close> that SimpleEventPlugin or SelectEventPlugin
  registers, the bubble registration name is \<open>on\<close> followed by \<open>X\<close> with its first
  letter capitalized, and the capture registration name is that name followed by
  \<open>Capture\<close>; for an event of SimpleEventPlugin the dependencies are the single native
  kind \<open>top\<close> followed by the capitalized name.
\<close>

theorem registration_names:
  assumes "eventTypes SimpleEventPlugin_tables X = Some config
           \<or> SelectEventPlugin_eventTypes X = Some config"
  shows "\<exists>capitalized. capitalizedEvent X = Some capitalized \<and>
           phasedRegistrationNames config =
             Some \<lparr>bubbled = ''on'' @ capitalized,
                   captured = (''on'' @ capitalized) @ ''Capture''\<rparr> \<and>
           (eventTypes SimpleEventPlugin_tables X = Some config \<longrightarrow>
              dependencies config = Some [''top'' @ capitalized])"
  using assms
proof
  assume "eventTypes SimpleEventPlugin_tables X = Some config"
  from entry_of_name [OF this] show ?thesis
    by (auto simp: entry_for_def)
next
  assume s: "SelectEventPlugin_eventTypes X = Some config"
  from select_registered [OF s] have x: "X = ''select''" and c: "config = select_config"
    by simp_all
  have "eventTypes SimpleEventPlugin_tables ''select'' = None"
  proof -
    have "''select'' \<notin> dom (eventTypes SimpleEventPlugin_tables)"
      unfolding keys_loaded(1)
      by (simp add: interactiveEventTypeNames_def nonInteractiveEventTypeNames_def)
    then show ?thesis by blast
  qed
  with x c show ?thesis
    by (simp add: select_config_def toUpperCase_def)
qed

theorem registration_names_witness:
  "\<exists>config. eventTypes SimpleEventPlugin_tables ''doubleClick'' = Some config \<and>
     capitalizedEvent ''doubleClick'' = Some ''DoubleClick'' \<and>
     phasedRegistrationNames config =
       Some \<lparr>bubbled = ''onDoubleClick'', captured = ''onDoubleClickCapture''\<rparr> \<and>
     dependencies config = Some [''topDoubleClick'']"
proof -
  obtain config where c: "eventTypes SimpleEventPlugin_tables ''doubleClick'' = Some config"
    using doubleClick_registered by blast
  then have "eventTypes SimpleEventPlugin_tables ''doubleClick'' = Some config
             \<or> SelectEventPlugin_eventTypes ''doubleClick'' = Some config"
    by simp
  from registration_names [OF this] c show ?thesis
    by (simp add: toUpperCase_def)
qed



section \<open>The selection plugin, call by call\<close>

lemma shallowEqual_iff: "shallowEqual a b = (a = b)"
  by (cases a; cases b) auto

lemma selection_differs_iff:
  "selection_differs lastSel currentSel = (lastSel = None \<or> lastSel \<noteq> currentSel)"
  by (auto simp: selection_differs_def shallowEqual_iff split: option.splits)

lemma constructSelectEvent_guarded:
  "mouseDown s \<or> activeElement s = None \<or> activeElement s \<noteq> getActiveElement P \<Longrightarrow>
     constructSelectEvent P s nativeEv nt = (None, s)"
  by (simp add: constructSelectEvent_def)

lemma constructSelectEvent_passed:
  assumes "\<not> mouseDown s" and "activeElement s = Some element"
    and "getActiveElement P = Some element"
  shows "constructSelectEvent P s nativeEv nt =
           (if selection_differs (lastSelection s) (getSelection P element)
            then (Some (select_event (activeElementInst s) element nativeEv nt),
                  s\<lparr>lastSelection := getSelection P element\<rparr>)
            else (None, s))"
  using assms by (simp add: constructSelectEvent_def Let_def select_event_def)

lemma constructSelectEvent_Some:
  assumes "constructSelectEvent P s nativeEv nt = (Some ev, s')"
  shows "\<not> mouseDown s \<and> activeElement s \<noteq> None \<and> activeElement s = getActiveElement P
         \<and> (\<exists>current. s' = s\<lparr>lastSelection := current\<rparr>)"
proof -
  have g: "\<not> (mouseDown s \<or> activeElement s = None \<or> activeElement s \<noteq> getActiveElement P)"
  proof
    assume "mouseDown s \<or> activeElement s = None \<or> activeElement s \<noteq> getActiveElement P"
    from constructSelectEvent_guarded [OF this, of nativeEv nt] assms show False by simp
  qed
  from g have n: "activeElement s \<noteq> None" by fast
  from g have a: "activeElement s = getActiveElement P" by fast
  from n obtain element where e: "activeElement s = Some element" by auto
  from e [unfolded a] have "getActiveElement P = Some element" .
  from constructSelectEvent_passed [OF _ e this, of nativeEv nt] g assms
  have "s' = s\<lparr>lastSelection := getSelection P element\<rparr>"
    by (auto split: if_splits)
  then have st: "\<exists>current. s' = s\<lparr>lastSelection := current\<rparr>" by blast
  from g have m: "\<not> mouseDown s" by fast
  from m n a st show ?thesis by (intro conjI)
qed

lemma switch_topFocus:
  "select_switch P s ''topFocus'' ti nativeEv nt =
     (if isTextInputElement P (targetNodeOf P ti)
         \<or> contentEditable P (targetNodeOf P ti) = Some ''true''
      then (None, s\<lparr>activeElement := Some (targetNodeOf P ti),
                     activeElementInst := ti, lastSelection := None\<rparr>)
      else (None, s))"
  by (simp add: select_switch_def Let_def)

lemma switch_topBlur:
  "select_switch P s ''topBlur'' ti nativeEv nt =
     (None, s\<lparr>activeElement := None, activeElementInst := None, lastSelection := None\<rparr>)"
  by (simp add: select_switch_def Let_def)

lemma switch_topMouseDown:
  "select_switch P s ''topMouseDown'' ti nativeEv nt = (None, s\<lparr>mouseDown := True\<rparr>)"
  by (simp add: select_switch_def Let_def)

lemma switch_topMouseUp:
  "select_switch P s ''topMouseUp'' ti nativeEv nt =
     constructSelectEvent P (s\<lparr>mouseDown := False\<rparr>) nativeEv nt"
  by (simp add: select_switch_def Let_def)

lemma switch_topContextMenu:
  "select_switch P s ''topContextMenu'' ti nativeEv nt =
     constructSelectEvent P (s\<lparr>mouseDown := False\<rparr>) nativeEv nt"
  by (simp add: select_switch_def Let_def)

lemma switch_topSelectionChange:
  "select_switch P s ''topSelectionChange'' ti nativeEv nt =
     (if skipSelectionChangeEvent P then (None, s)
      else constructSelectEvent P s nativeEv nt)"
  by (simp add: select_switch_def Let_def)

lemma switch_topKeyDown:
  "select_switch P s ''topKeyDown'' ti nativeEv nt = constructSelectEvent P s nativeEv nt"
  by (simp add: select_switch_def Let_def)

lemma switch_topKeyUp:
  "select_switch P s ''topKeyUp'' ti nativeEv nt = constructSelectEvent P s nativeEv nt"
  by (simp add: select_switch_def Let_def)

lemma extract_not_listening:
  "\<not> listening P nt \<Longrightarrow> SelectEventPlugin_extractEvents P s t ti nativeEv nt = (None, s)"
  by (simp add: SelectEventPlugin_extractEvents_def)

lemma extract_listening:
  "listening P nt \<Longrightarrow>
     SelectEventPlugin_extractEvents P s t ti nativeEv nt = select_switch P s t ti nativeEv nt"
  by (simp add: SelectEventPlugin_extractEvents_def)

lemma extract_Some:
  assumes "SelectEventPlugin_extractEvents P s t ti nativeEv nt = (Some ev, s')"
  shows "\<not> mouseDown s' \<and> activeElement s' \<noteq> None \<and> activeElement s' = getActiveElement P"
proof -
  from assms have sw: "select_switch P s t ti nativeEv nt = (Some ev, s')"
    by (simp add: SelectEventPlugin_extractEvents_def split: if_splits)
  from select_switch_cases [of P s t ti nativeEv nt] sw
  consider "constructSelectEvent P s nativeEv nt = (Some ev, s')"
    | "constructSelectEvent P (s\<lparr>mouseDown := False\<rparr>) nativeEv nt = (Some ev, s')"
    by auto
  then show ?thesis
  proof cases
    case 1
    from constructSelectEvent_Some [OF 1]
    have g: "\<not> mouseDown s" "activeElement s \<noteq> None" "activeElement s = getActiveElement P"
      and st: "\<exists>current. s' = s\<lparr>lastSelection := current\<rparr>"
      by blast+
    from st obtain current where "s' = s\<lparr>lastSelection := current\<rparr>" by blast
    then have "mouseDown s' = mouseDown s" "activeElement s' = activeElement s"
      by simp_all
    with g show ?thesis by simp
  next
    case 2
    let ?s = "s\<lparr>mouseDown := False\<rparr>"
    from constructSelectEvent_Some [OF 2]
    have g: "\<not> mouseDown ?s" "activeElement ?s \<noteq> None" "activeElement ?s = getActiveElement P"
      and st: "\<exists>current. s' = ?s\<lparr>lastSelection := current\<rparr>"
      by blast+
    from st obtain current where "s' = ?s\<lparr>lastSelection := current\<rparr>" by blast
    then have "mouseDown s' = mouseDown ?s" "activeElement s' = activeElement ?s"
      by simp_all
    with g show ?thesis by simp
  qed
qed

section \<open>Claims about SelectEventPlugin\<close>

text \<open>
  Claim C2. An emission attempt (a call of \<open>constructSelectEvent\<close>) produces no event
  and changes nothing when the pressed flag is set, or no focused element is recorded, or
  the element the platform reports as focused is not the recorded one. So a native
  selection-change, key-down or key-up produces no event in such a state; a pointer-up or
  context-menu, which clears the pressed flag before the attempt, produces none when no
  element is recorded or the platform's element differs; and whenever the plugin returns
  an event, none of the three conditions holds in the state it leaves.
\<close>

theorem emission_guards:
  "(mouseDown s \<or> activeElement s = None \<or> activeElement s \<noteq> getActiveElement P \<longrightarrow>
      constructSelectEvent P s nativeEv nt = (None, s))
   \<and> (t \<in> set [''topSelectionChange'', ''topKeyDown'', ''topKeyUp''] \<and>
       (mouseDown s \<or> activeElement s = None \<or> activeElement s \<noteq> getActiveElement P) \<longrightarrow>
      SelectEventPlugin_extractEvents P s t ti nativeEv nt = (None, s))
   \<and> (t \<in> set [''topMouseUp'', ''topContextMenu''] \<and>
       (activeElement s = None \<or> activeElement s \<noteq> getActiveElement P) \<longrightarrow>
      fst (SelectEventPlugin_extractEvents P s t ti nativeEv nt) = None)
   \<and> (SelectEventPlugin_extractEvents P s t ti nativeEv nt = (Some ev, s') \<longrightarrow>
      \<not> mouseDown s' \<and> activeElement s' \<noteq> None \<and> activeElement s' = getActiveElement P)"
proof -
  have guarded: "mouseDown s \<or> activeElement s = None \<or> activeElement s \<noteq> getActiveElement P \<longrightarrow>
      constructSelectEvent P s nativeEv nt = (None, s)"
    using constructSelectEvent_guarded by blast
  have keys: "t \<in> set [''topSelectionChange'', ''topKeyDown'', ''topKeyUp''] \<and>
       (mouseDown s \<or> activeElement s = None \<or> activeElement s \<noteq> getActiveElement P) \<longrightarrow>
      SelectEventPlugin_extractEvents P s t ti nativeEv nt = (None, s)"
  proof
    assume a: "t \<in> set [''topSelectionChange'', ''topKeyDown'', ''topKeyUp''] \<and>
      (mouseDown s \<or> activeElement s = None \<or> activeElement s \<noteq> getActiveElement P)"
    then have c: "constructSelectEvent P s nativeEv nt = (None, s)"
      using constructSelectEvent_guarded by blast
    from a have "t = ''topSelectionChange'' \<or> t = ''topKeyDown'' \<or> t = ''topKeyUp''" by simp
    then have "select_switch P s t ti nativeEv nt = (None, s)"
      using c by (auto simp: switch_topSelectionChange switch_topKeyDown switch_topKeyUp)
    then show "SelectEventPlugin_extractEvents P s t ti nativeEv nt = (None, s)"
      by (simp add: SelectEventPlugin_extractEvents_def)
  qed
  have pointer: "t \<in> set [''topMouseUp'', ''topContextMenu''] \<and>
       (activeElement s = None \<or> activeElement s \<noteq> getActiveElement P) \<longrightarrow>
      fst (SelectEventPlugin_extractEvents P s t ti nativeEv nt) = None"
  proof
    assume a: "t \<in> set [''topMouseUp'', ''topContextMenu''] \<and>
      (activeElement s = None \<or> activeElement s \<noteq> getActiveElement P)"
    let ?s = "s\<lparr>mouseDown := False\<rparr>"
    from a have "mouseDown ?s \<or> activeElement ?s = None \<or> activeElement ?s \<noteq> getActiveElement P"
      by simp
    then have c: "constructSelectEvent P ?s nativeEv nt = (None, ?s)"
      by (rule constructSelectEvent_guarded)
    from a have "t = ''topMouseUp'' \<or> t = ''topContextMenu''" by simp
    then have "fst (select_switch P s t ti nativeEv nt) = None"
      using c by (auto simp: switch_topMouseUp switch_topContextMenu)
    then show "fst (SelectEventPlugin_extractEvents P s t ti nativeEv nt) = None"
      by (simp add: SelectEventPlugin_extractEvents_def)
  qed
  have produced: "SelectEventPlugin_extractEvents P s t ti nativeEv nt = (Some ev, s') \<longrightarrow>
      \<not> mouseDown s' \<and> activeElement s' \<noteq> None \<and> activeElement s' = getActiveElement P"
    using extract_Some by blast
  from guarded keys pointer produced show ?thesis by (intro conjI)
qed

lemmas example_defs = example_platform_def example_step_def plain_event_def select_event_def
  initial_state_def extract_step_def SelectEventPlugin_extractEvents_def listening_def
  documentOf_def targetNodeOf_def select_switch_def constructSelectEvent_def
  getSelection_def selection_differs_def Let_def

section \<open>The selection plugin over sequences\<close>

lemma run_Cons:
  "run s (st # rest) =
     (fst (extract_step s st) # fst (run (snd (extract_step s st)) rest),
      snd (run (snd (extract_step s st)) rest))"
  by (simp split: prod.splits)

lemma run_append:
  "run s (xs @ ys) = (fst (run s xs) @ fst (run (snd (run s xs)) ys),
                      snd (run (snd (run s xs)) ys))"
proof (induction xs arbitrary: s)
  case Nil
  show ?case by simp
next
  case (Cons x xs)
  show ?case by (simp add: Cons.IH run_Cons del: run.simps(2))
qed

lemma run_without_check_Cons:
  "run_without_check s (st # rest) =
     (fst (extract_step_without_check s st)
        # fst (run_without_check (snd (extract_step_without_check s st)) rest),
      snd (run_without_check (snd (extract_step_without_check s st)) rest))"
  by (simp split: prod.splits)

lemma length_run: "length (fst (run s sts)) = length sts"
  by (induction sts arbitrary: s) (simp_all add: run_Cons del: run.simps(2))

lemma length_run_without_check: "length (fst (run_without_check s sts)) = length sts"
  by (induction sts arbitrary: s)
     (simp_all add: run_without_check_Cons del: run_without_check.simps(2))

lemma step_records_focus:
  assumes "records_focus f"
  shows "extract_step s f =
           (None, s\<lparr>activeElement := Some (targetNodeOf (stepPlatform f) (stepTargetInst f)),
                     activeElementInst := stepTargetInst f, lastSelection := None\<rparr>)"
  using assms
  by (simp add: records_focus_def extract_step_def stepListening_def extract_listening
        switch_topFocus)

lemma step_mouseDown:
  assumes "stepType d = ''topMouseDown''"
  shows "extract_step s d = (None, s) \<or> extract_step s d = (None, s\<lparr>mouseDown := True\<rparr>)"
  using assms
  by (simp add: extract_step_def SelectEventPlugin_extractEvents_def switch_topMouseDown)

lemma step_mouseUp:
  assumes "stepType u = ''topMouseUp''" and "stepListening u"
  shows "extract_step s u =
           constructSelectEvent (stepPlatform u) (s\<lparr>mouseDown := False\<rparr>)
             (stepNativeEvent u) (stepNativeTarget u)"
  using assms
  by (simp add: extract_step_def stepListening_def extract_listening switch_topMouseUp)

text \<open>
  Claim C1, as stated, fails in its first part: after a focus-in on a text field, a
  pointer-down and a pointer-up with the selection unchanged throughout (the platform is
  the same in all three calls), the pointer-up returns a select event. The focus-in has
  cleared the stored snapshot, and an attempt with no stored snapshot always emits.
\<close>

theorem focus_down_up_unchanged_counterexample:
  "fst (run initial_state
         [example_step (example_platform True (Some 11) 0 0) ''topFocus'' 1,
          example_step (example_platform True (Some 11) 0 0) ''topMouseDown'' 1,
          example_step (example_platform True (Some 11) 0 0) ''topMouseUp'' 1]) =
     [None, None, Some (select_event (Some 1) 11 plain_event 11)]"
  by (simp add: example_defs)

text \<open>
  Claim C1, amended. After a focus-in that records a text field, a pointer-down and a
  pointer-up handled while the document is listening and the platform's focused element
  is the recorded one, the pointer-up returns exactly one select event, targeted at the
  recorded element and its Fiber, whether or not the selection changed, and stores the
  fresh snapshot. In general an attempt that passes the guards emits exactly when no
  snapshot is stored or the fresh snapshot differs from the stored one; with a stored
  snapshot and an unchanged selection it returns nothing.
\<close>

theorem first_attempt_after_focus:
  "(records_focus f \<and> stepType d = ''topMouseDown'' \<and> stepType u = ''topMouseUp'' \<and>
    stepListening u \<and>
    getActiveElement (stepPlatform u) = Some (targetNodeOf (stepPlatform f) (stepTargetInst f)) \<longrightarrow>
      run s [f, d, u] =
        ([None, None,
          Some (select_event (stepTargetInst f)
                  (targetNodeOf (stepPlatform f) (stepTargetInst f))
                  (stepNativeEvent u) (stepNativeTarget u))],
         \<lparr>activeElement = Some (targetNodeOf (stepPlatform f) (stepTargetInst f)),
          activeElementInst = stepTargetInst f,
          lastSelection = getSelection (stepPlatform u)
                            (targetNodeOf (stepPlatform f) (stepTargetInst f)),
          mouseDown = False\<rparr>))
   \<and> (\<not> mouseDown s \<and> activeElement s = Some element \<and> getActiveElement P = Some element \<longrightarrow>
      constructSelectEvent P s nativeEv nt =
        (if lastSelection s = None \<or> lastSelection s \<noteq> getSelection P element
         then (Some (select_event (activeElementInst s) element nativeEv nt),
               s\<lparr>lastSelection := getSelection P element\<rparr>)
         else (None, s)))"
proof -
  let ?node = "targetNodeOf (stepPlatform f) (stepTargetInst f)"
  have general: "\<not> mouseDown s \<and> activeElement s = Some element \<and>
      getActiveElement P = Some element \<longrightarrow>
      constructSelectEvent P s nativeEv nt =
        (if lastSelection s = None \<or> lastSelection s \<noteq> getSelection P element
         then (Some (select_event (activeElementInst s) element nativeEv nt),
               s\<lparr>lastSelection := getSelection P element\<rparr>)
         else (None, s))"
    using constructSelectEvent_passed [of s element P nativeEv nt]
    by (simp add: selection_differs_iff)
  have sequence: "records_focus f \<and> stepType d = ''topMouseDown'' \<and> stepType u = ''topMouseUp'' \<and>
    stepListening u \<and> getActiveElement (stepPlatform u) = Some ?node \<longrightarrow>
      run s [f, d, u] =
        ([None, None,
          Some (select_event (stepTargetInst f) ?node (stepNativeEvent u) (stepNativeTarget u))],
         \<lparr>activeElement = Some ?node, activeElementInst = stepTargetInst f,
          lastSelection = getSelection (stepPlatform u) ?node, mouseDown = False\<rparr>)"
  proof
    assume a: "records_focus f \<and> stepType d = ''topMouseDown'' \<and> stepType u = ''topMouseUp'' \<and>
      stepListening u \<and> getActiveElement (stepPlatform u) = Some ?node"
    let ?s1 = "s\<lparr>activeElement := Some ?node, activeElementInst := stepTargetInst f,
                  lastSelection := None\<rparr>"
    from a have f: "extract_step s f = (None, ?s1)" by (simp add: step_records_focus)
    from a step_mouseDown [of d ?s1]
    have d: "extract_step ?s1 d = (None, ?s1) \<or> extract_step ?s1 d = (None, ?s1\<lparr>mouseDown := True\<rparr>)"
      by simp
    let ?s3 = "\<lparr>activeElement = Some ?node, activeElementInst = stepTargetInst f,
                lastSelection = getSelection (stepPlatform u) ?node, mouseDown = False\<rparr>"
    let ?ev = "select_event (stepTargetInst f) ?node (stepNativeEvent u) (stepNativeTarget u)"
    have u: "extract_step s2 u = (Some ?ev, ?s3)"
      if "s2 = ?s1 \<or> s2 = ?s1\<lparr>mouseDown := True\<rparr>" for s2
    proof -
      let ?s2 = "s2\<lparr>mouseDown := False\<rparr>"
      from that have p: "\<not> mouseDown ?s2" "activeElement ?s2 = Some ?node"
        "lastSelection ?s2 = None" "activeElementInst ?s2 = stepTargetInst f"
        by auto
      from a have g: "getActiveElement (stepPlatform u) = Some ?node" by simp
      from a have "extract_step s2 u =
          constructSelectEvent (stepPlatform u) ?s2 (stepNativeEvent u) (stepNativeTarget u)"
        by (simp add: step_mouseUp)
      also from constructSelectEvent_passed [OF p(1) p(2) g] p(3) p(4)
      have "\<dots> = (Some ?ev, ?s2\<lparr>lastSelection := getSelection (stepPlatform u) ?node\<rparr>)"
        by (simp add: selection_differs_iff)
      also from that have "?s2\<lparr>lastSelection := getSelection (stepPlatform u) ?node\<rparr> = ?s3"
        by auto
      finally show ?thesis .
    qed
    from d show "run s [f, d, u] = ([None, None, Some ?ev], ?s3)"
    proof
      assume d1: "extract_step ?s1 d = (None, ?s1)"
      from u [of ?s1] have "extract_step ?s1 u = (Some ?ev, ?s3)" by simp
      with f d1 show ?thesis by simp
    next
      assume d2: "extract_step ?s1 d = (None, ?s1\<lparr>mouseDown := True\<rparr>)"
      from u [of "?s1\<lparr>mouseDown := True\<rparr>"]
      have "extract_step (?s1\<lparr>mouseDown := True\<rparr>) u = (Some ?ev, ?s3)" by simp
      with f d2 show ?thesis by simp
    qed
  qed
  from sequence general show ?thesis by (intro conjI)
qed

theorem first_attempt_after_focus_witness:
  "records_focus (example_step (example_platform True (Some 11) 0 0) ''topFocus'' 1) \<and>
   stepListening (example_step (example_platform True (Some 11) 2 5) ''topMouseUp'' 1) \<and>
   getActiveElement (example_platform True (Some 11) 2 5) = Some 11 \<and>
   run initial_state
     [example_step (example_platform True (Some 11) 0 0) ''topFocus'' 1,
      example_step (example_platform True (Some 11) 0 0) ''topMouseDown'' 1,
      example_step (example_platform True (Some 11) 2 5) ''topMouseUp'' 1] =
     ([None, None, Some (select_event (Some 1) 11 plain_event 11)],
      \<lparr>activeElement = Some 11, activeElementInst = Some 1,
       lastSelection = Some (InputSelection (Some 2) (Some 5)), mouseDown = False\<rparr>)"
proof -
  let ?f = "example_step (example_platform True (Some 11) 0 0) ''topFocus'' 1"
  let ?d = "example_step (example_platform True (Some 11) 0 0) ''topMouseDown'' 1"
  let ?u = "example_step (example_platform True (Some 11) 2 5) ''topMouseUp'' 1"
  have h: "records_focus ?f" "stepType ?d = ''topMouseDown''" "stepType ?u = ''topMouseUp''"
    "stepListening ?u" "getActiveElement (stepPlatform ?u) = Some (targetNodeOf (stepPlatform ?f) (stepTargetInst ?f))"
    by (simp_all add: records_focus_def stepListening_def example_step_def example_platform_def
          listening_def documentOf_def targetNodeOf_def)
  from first_attempt_after_focus [THEN conjunct1, of ?f ?d ?u initial_state] h
  have "run initial_state [?f, ?d, ?u] =
        ([None, None,
          Some (select_event (stepTargetInst ?f)
                  (targetNodeOf (stepPlatform ?f) (stepTargetInst ?f))
                  (stepNativeEvent ?u) (stepNativeTarget ?u))],
         \<lparr>activeElement = Some (targetNodeOf (stepPlatform ?f) (stepTargetInst ?f)),
          activeElementInst = stepTargetInst ?f,
          lastSelection = getSelection (stepPlatform ?u)
                            (targetNodeOf (stepPlatform ?f) (stepTargetInst ?f)),
          mouseDown = False\<rparr>)"
    by blast
  moreover have "targetNodeOf (stepPlatform ?f) (stepTargetInst ?f) = 11"
    "stepTargetInst ?f = Some 1" "stepNativeEvent ?u = plain_event" "stepNativeTarget ?u = 11"
    "getSelection (stepPlatform ?u) 11 = Some (InputSelection (Some 2) (Some 5))"
    by (simp_all add: example_step_def example_platform_def targetNodeOf_def getSelection_def)
  ultimately have "run initial_state [?f, ?d, ?u] =
     ([None, None, Some (select_event (Some 1) 11 plain_event 11)],
      \<lparr>activeElement = Some 11, activeElementInst = Some 1,
       lastSelection = Some (InputSelection (Some 2) (Some 5)), mouseDown = False\<rparr>)"
    by simp
  with h show ?thesis
    by (simp add: example_step_def example_platform_def)
qed

theorem emission_guards_witness:
  "mouseDown \<lparr>activeElement = Some 11, activeElementInst = Some 1,
              lastSelection = None, mouseDown = True\<rparr> \<and>
   ''topKeyUp'' \<in> set [''topSelectionChange'', ''topKeyDown'', ''topKeyUp''] \<and>
   SelectEventPlugin_extractEvents (example_platform True (Some 11) 0 3)
     \<lparr>activeElement = Some 11, activeElementInst = Some 1,
      lastSelection = None, mouseDown = True\<rparr> ''topKeyUp'' (Some 1) plain_event 11 =
     (None, \<lparr>activeElement = Some 11, activeElementInst = Some 1,
             lastSelection = None, mouseDown = True\<rparr>)"
  using emission_guards
    [THEN conjunct2, THEN conjunct1,
     of "''topKeyUp''"
        "\<lparr>activeElement = Some 11, activeElementInst = Some 1,
          lastSelection = None, mouseDown = True\<rparr>"
        "example_platform True (Some 11) 0 3" "Some 1" plain_event 11]
  by simp

text \<open>
  Claim C10. A \<open>topFocus\<close> whose target node is neither a text input nor has
  \<open>contentEditable\<close> equal to \<open>true\<close> returns no event and leaves the whole plugin
  state as it was, so the calls that follow behave as if the focus had not been seen.
\<close>

theorem focus_elsewhere_ignored:
  "(\<not> isTextInputElement P (targetNodeOf P ti) \<and>
    contentEditable P (targetNodeOf P ti) \<noteq> Some ''true'' \<longrightarrow>
      SelectEventPlugin_extractEvents P s ''topFocus'' ti nativeEv nt = (None, s))
   \<and> (stepType st = ''topFocus'' \<and>
       \<not> isTextInputElement (stepPlatform st) (targetNodeOf (stepPlatform st) (stepTargetInst st)) \<and>
       contentEditable (stepPlatform st) (targetNodeOf (stepPlatform st) (stepTargetInst st))
         \<noteq> Some ''true'' \<longrightarrow>
      run s (st # rest) = (None # fst (run s rest), snd (run s rest)))"
proof -
  have one: "SelectEventPlugin_extractEvents P' s ''topFocus'' ti' nativeEv' nt' = (None, s)"
    if "\<not> isTextInputElement P' (targetNodeOf P' ti')"
      and "contentEditable P' (targetNodeOf P' ti') \<noteq> Some ''true''"
    for P' ti' nativeEv' nt'
    using that by (simp add: SelectEventPlugin_extractEvents_def switch_topFocus)
  have first: "\<not> isTextInputElement P (targetNodeOf P ti) \<and>
    contentEditable P (targetNodeOf P ti) \<noteq> Some ''true'' \<longrightarrow>
      SelectEventPlugin_extractEvents P s ''topFocus'' ti nativeEv nt = (None, s)"
    using one by blast
  have second: "stepType st = ''topFocus'' \<and>
       \<not> isTextInputElement (stepPlatform st) (targetNodeOf (stepPlatform st) (stepTargetInst st)) \<and>
       contentEditable (stepPlatform st) (targetNodeOf (stepPlatform st) (stepTargetInst st))
         \<noteq> Some ''true'' \<longrightarrow>
      run s (st # rest) = (None # fst (run s rest), snd (run s rest))"
  proof
    assume a: "stepType st = ''topFocus'' \<and>
       \<not> isTextInputElement (stepPlatform st) (targetNodeOf (stepPlatform st) (stepTargetInst st)) \<and>
       contentEditable (stepPlatform st) (targetNodeOf (stepPlatform st) (stepTargetInst st))
         \<noteq> Some ''true''"
    then have "extract_step s st = (None, s)"
      using one [of "stepPlatform st" "stepTargetInst st" "stepNativeEvent st" "stepNativeTarget st"]
      by (simp add: extract_step_def)
    then show "run s (st # rest) = (None # fst (run s rest), snd (run s rest))"
      by (simp add: run_Cons del: run.simps(2))
  qed
  from first second show ?thesis by (intro conjI)
qed

theorem focus_elsewhere_ignored_witness:
  "\<not> isTextInputElement (example_platform True (Some 13) 0 0)
       (targetNodeOf (example_platform True (Some 13) 0 0) (Some 3)) \<and>
   contentEditable (example_platform True (Some 13) 0 0)
       (targetNodeOf (example_platform True (Some 13) 0 0) (Some 3)) \<noteq> Some ''true'' \<and>
   SelectEventPlugin_extractEvents (example_platform True (Some 13) 0 0) initial_state
       ''topFocus'' (Some 3) plain_event 13 = (None, initial_state) \<and>
   fst (run initial_state
         [example_step (example_platform True (Some 13) 0 0) ''topFocus'' 3,
          example_step (example_platform True (Some 13) 0 0) ''topKeyUp'' 3]) = [None, None]"
proof -
  let ?P = "example_platform True (Some 13) 0 0"
  have h: "\<not> isTextInputElement ?P (targetNodeOf ?P (Some 3))"
    "contentEditable ?P (targetNodeOf ?P (Some 3)) \<noteq> Some ''true''"
    by (simp_all add: example_platform_def targetNodeOf_def)
  from focus_elsewhere_ignored [THEN conjunct1, of ?P "Some 3" initial_state plain_event 13] h
  have e: "SelectEventPlugin_extractEvents ?P initial_state ''topFocus'' (Some 3) plain_event 13
            = (None, initial_state)"
    by blast
  have "fst (run initial_state
         [example_step ?P ''topFocus'' 3, example_step ?P ''topKeyUp'' 3]) = [None, None]"
    by (simp add: example_defs)
  with h e show ?thesis by (intro conjI)
qed

lemma select_switch_other_kinds:
  "t \<noteq> ''topFocus'' \<Longrightarrow>
   select_switch P s t ti nativeEv nt \<in>
     {(None, s),
      (None, s\<lparr>activeElement := None, activeElementInst := None, lastSelection := None\<rparr>),
      (None, s\<lparr>mouseDown := True\<rparr>),
      constructSelectEvent P (s\<lparr>mouseDown := False\<rparr>) nativeEv nt,
      constructSelectEvent P s nativeEv nt}"
  by (simp add: select_switch_def Let_def)

lemma switch_without_focus:
  assumes "activeElement s = None"
    and "t = ''topFocus'' \<longrightarrow>
           \<not> (isTextInputElement P (targetNodeOf P ti)
              \<or> contentEditable P (targetNodeOf P ti) = Some ''true'')"
  shows "fst (select_switch P s t ti nativeEv nt) = None
         \<and> activeElement (snd (select_switch P s t ti nativeEv nt)) = None"
proof (cases "t = ''topFocus''")
  case True
  with assms show ?thesis by (simp add: switch_topFocus)
next
  case False
  let ?s = "s\<lparr>mouseDown := False\<rparr>"
  from assms(1) have c1: "constructSelectEvent P s nativeEv nt = (None, s)"
    by (simp add: constructSelectEvent_guarded)
  from assms(1) have c2: "constructSelectEvent P ?s nativeEv nt = (None, ?s)"
    by (simp add: constructSelectEvent_guarded)
  from select_switch_other_kinds [OF False, of P s ti nativeEv nt] c1 c2 assms(1)
  show ?thesis by auto
qed

lemma step_without_focus:
  assumes "activeElement s = None" and "\<not> records_focus st"
  shows "fst (extract_step s st) = None \<and> activeElement (snd (extract_step s st)) = None"
proof (cases "stepListening st")
  case False
  with assms(1) show ?thesis
    by (simp add: extract_step_def stepListening_def extract_not_listening)
next
  case True
  with assms(2) have "stepType st = ''topFocus'' \<longrightarrow>
      \<not> (isTextInputElement (stepPlatform st) (targetNodeOf (stepPlatform st) (stepTargetInst st))
         \<or> contentEditable (stepPlatform st) (targetNodeOf (stepPlatform st) (stepTargetInst st))
              = Some ''true'')"
    by (simp add: records_focus_def)
  from switch_without_focus [OF assms(1) this] True show ?thesis
    by (simp add: extract_step_def stepListening_def extract_listening)
qed

lemma run_without_focus:
  "activeElement s = None \<Longrightarrow> \<forall>st \<in> set sts. \<not> records_focus st \<Longrightarrow>
     (\<forall>ev \<in> set (fst (run s sts)). ev = None) \<and> activeElement (snd (run s sts)) = None"
proof (induction sts arbitrary: s)
  case Nil
  then show ?case by simp
next
  case (Cons st sts)
  from Cons.prems have n: "\<not> records_focus st" by simp
  from step_without_focus [OF Cons.prems(1) n]
  have e: "fst (extract_step s st) = None"
    and a: "activeElement (snd (extract_step s st)) = None"
    by simp_all
  from Cons.prems have "\<forall>st \<in> set sts. \<not> records_focus st" by simp
  from Cons.IH [OF a this] e show ?case
    by (simp add: run_Cons del: run.simps(2))
qed

lemma step_blur:
  assumes "stepType b = ''topBlur''" and "stepListening b"
  shows "extract_step s b =
           (None, s\<lparr>activeElement := None, activeElementInst := None, lastSelection := None\<rparr>)"
  using assms
  by (simp add: extract_step_def stepListening_def extract_listening switch_topBlur)

lemma mouseUp_not_focus: "stepType u = ''topMouseUp'' \<Longrightarrow> \<not> records_focus u"
  by (simp add: records_focus_def)

text \<open>
  Claim C6, as stated, fails: with a focus-out between pointer-down and pointer-up that is
  followed by a focus-in on another text field (the order in which a click into another
  field arrives), the pointer-up returns a select event for the newly recorded element.
\<close>

theorem refocus_between_down_and_up_counterexample:
  "fst (run initial_state
         [example_step (example_platform True (Some 11) 0 0) ''topFocus'' 1,
          example_step (example_platform True (Some 11) 0 0) ''topMouseDown'' 2,
          example_step (example_platform True (Some 12) 0 0) ''topBlur'' 1,
          example_step (example_platform True (Some 12) 0 0) ''topFocus'' 2,
          example_step (example_platform True (Some 12) 0 0) ''topMouseUp'' 2]) =
     [None, None, None, None, Some (select_event (Some 2) 12 plain_event 12)]"
  by (simp add: example_defs)

text \<open>
  Claim C6, amended. A focus-out handled while the document is listening clears the
  recorded element, its Fiber and the stored snapshot. Consequently, in every sequence in
  which such a focus-out is followed by a pointer-up with no call in between that records
  a new focused element, the pointer-up returns no event, whatever the selection and
  whatever came before the focus-out.
\<close>

theorem blur_clears_then_no_event:
  "(stepType b = ''topBlur'' \<and> stepListening b \<longrightarrow>
      extract_step s b =
        (None, s\<lparr>activeElement := None, activeElementInst := None, lastSelection := None\<rparr>))
   \<and> (stepType b = ''topBlur'' \<and> stepListening b \<and> (\<forall>st \<in> set mid. \<not> records_focus st) \<and>
       stepType u = ''topMouseUp'' \<longrightarrow>
      last (fst (run s (pre @ b # mid @ [u]))) = None)"
proof -
  have first: "stepType b = ''topBlur'' \<and> stepListening b \<longrightarrow>
      extract_step s b =
        (None, s\<lparr>activeElement := None, activeElementInst := None, lastSelection := None\<rparr>)"
    by (simp add: step_blur)
  have second: "stepType b = ''topBlur'' \<and> stepListening b \<and>
       (\<forall>st \<in> set mid. \<not> records_focus st) \<and> stepType u = ''topMouseUp'' \<longrightarrow>
      last (fst (run s (pre @ b # mid @ [u]))) = None"
  proof
    assume a: "stepType b = ''topBlur'' \<and> stepListening b \<and>
       (\<forall>st \<in> set mid. \<not> records_focus st) \<and> stepType u = ''topMouseUp''"
    let ?s0 = "snd (run s pre)"
    let ?s1 = "snd (extract_step ?s0 b)"
    from a have "extract_step ?s0 b =
        (None, ?s0\<lparr>activeElement := None, activeElementInst := None, lastSelection := None\<rparr>)"
      by (simp add: step_blur)
    then have cleared: "activeElement ?s1 = None" by simp
    from a mouseUp_not_focus have "\<forall>st \<in> set (mid @ [u]). \<not> records_focus st" by simp
    from run_without_focus [OF cleared this]
    have none: "\<forall>ev \<in> set (fst (run ?s1 (mid @ [u]))). ev = None" by simp
    have "length (fst (run ?s1 (mid @ [u]))) = length (mid @ [u])" by (rule length_run)
    then have ne: "fst (run ?s1 (mid @ [u])) \<noteq> []" by auto
    with none have l: "last (fst (run ?s1 (mid @ [u]))) = None" by simp
    have "fst (run s (pre @ b # mid @ [u])) =
            fst (run s pre) @ fst (extract_step ?s0 b) # fst (run ?s1 (mid @ [u]))"
      by (simp add: run_append run_Cons del: run.simps(2))
    with ne l show "last (fst (run s (pre @ b # mid @ [u]))) = None" by simp
  qed
  from first second show ?thesis by (intro conjI)
qed

theorem blur_clears_then_no_event_witness:
  "stepType (example_step (example_platform True (Some 11) 0 4) ''topBlur'' 1) = ''topBlur'' \<and>
   stepListening (example_step (example_platform True (Some 11) 0 4) ''topBlur'' 1) \<and>
   \<not> records_focus (example_step (example_platform True (Some 11) 0 4) ''topKeyUp'' 1) \<and>
   last (fst (run initial_state
         ([example_step (example_platform True (Some 11) 0 0) ''topFocus'' 1,
           example_step (example_platform True (Some 11) 0 0) ''topMouseDown'' 1]
          @ example_step (example_platform True (Some 11) 0 4) ''topBlur'' 1
          # [example_step (example_platform True (Some 11) 0 4) ''topKeyUp'' 1]
          @ [example_step (example_platform True (Some 11) 0 4) ''topMouseUp'' 1]))) = None"
proof -
  let ?b = "example_step (example_platform True (Some 11) 0 4) ''topBlur'' 1"
  let ?k = "example_step (example_platform True (Some 11) 0 4) ''topKeyUp'' 1"
  let ?u = "example_step (example_platform True (Some 11) 0 4) ''topMouseUp'' 1"
  have h: "stepType ?b = ''topBlur''" "stepListening ?b" "\<not> records_focus ?k"
    "stepType ?u = ''topMouseUp''"
    by (simp_all add: records_focus_def stepListening_def example_step_def example_platform_def
          listening_def documentOf_def)
  then have "stepType ?b = ''topBlur'' \<and> stepListening ?b \<and>
      (\<forall>st \<in> set [?k]. \<not> records_focus st) \<and> stepType ?u = ''topMouseUp''"
    by simp
  with blur_clears_then_no_event [THEN conjunct2, of ?b "[?k]" ?u initial_state
      "[example_step (example_platform True (Some 11) 0 0) ''topFocus'' 1,
        example_step (example_platform True (Some 11) 0 0) ''topMouseDown'' 1]"]
  have "last (fst (run initial_state
         ([example_step (example_platform True (Some 11) 0 0) ''topFocus'' 1,
           example_step (example_platform True (Some 11) 0 0) ''topMouseDown'' 1]
          @ ?b # [?k] @ [?u]))) = None"
    by blast
  with h show ?thesis by (intro conjI)
qed

lemma step_listening_same:
  "stepListening st \<Longrightarrow> extract_step s st = extract_step_without_check s st"
  by (simp add: extract_step_def extract_step_without_check_def stepListening_def
        extract_listening)

lemma step_not_listening:
  "\<not> stepListening st \<Longrightarrow> extract_step s st = (None, s)"
  by (simp add: extract_step_def stepListening_def extract_not_listening)

lemma run_listening_same:
  "\<forall>st \<in> set sts. stepListening st \<Longrightarrow> run s sts = run_without_check s sts"
proof (induction sts arbitrary: s)
  case Nil
  show ?case by simp
next
  case (Cons st sts)
  from Cons.prems have "extract_step s st = extract_step_without_check s st"
    by (simp add: step_listening_same)
  moreover from Cons.prems have "\<forall>st \<in> set sts. stepListening st" by simp
  ultimately show ?case
    by (simp add: Cons.IH run_Cons run_without_check_Cons
             del: run.simps(2) run_without_check.simps(2))
qed

lemma delivered_not_listening:
  "\<forall>st \<in> set sts. \<not> stepListening st \<Longrightarrow> length evs = length sts \<Longrightarrow>
     delivered sts evs = replicate (length sts) None"
proof (induction sts arbitrary: evs)
  case Nil
  then show ?case by simp
next
  case (Cons st sts)
  then obtain ev rest where evs: "evs = ev # rest" by (cases evs) auto
  with Cons.prems have "length rest = length sts" and "\<forall>st \<in> set sts. \<not> stepListening st"
    and "\<not> stepListening st"
    by simp_all
  with Cons.IH [of rest] evs show ?case by simp
qed

text \<open>
  Claim C9, as stated, fails in its second part: a focus-in handled while the document is
  not yet listening is skipped together with its state update, so a key-up handled once
  the document listens returns nothing, where the plugin without the check returns a
  select event at a moment when a listener is registered.
\<close>

theorem check_skips_focus_counterexample:
  "fst (run initial_state
         [example_step (example_platform False (Some 11) 0 0) ''topFocus'' 1,
          example_step (example_platform True (Some 11) 0 0) ''topKeyUp'' 1]) =
     [None, None] \<and>
   delivered
     [example_step (example_platform False (Some 11) 0 0) ''topFocus'' 1,
      example_step (example_platform True (Some 11) 0 0) ''topKeyUp'' 1]
     (fst (run_without_check initial_state
         [example_step (example_platform False (Some 11) 0 0) ''topFocus'' 1,
          example_step (example_platform True (Some 11) 0 0) ''topKeyUp'' 1])) =
     [None, Some (select_event (Some 1) 11 plain_event 11)]"
  by (simp add: example_defs extract_step_without_check_def stepListening_def)

text \<open>
  Claim C9, amended. When the document is not listening, the plugin returns no event and
  leaves its state unchanged. For every sequence during which the document is listening at
  every call, the plugin returns the same events and reaches the same state with the
  check as without it; for every sequence during which it is listening at no call, the
  events that reach a registered listener are the same (none) either way.
\<close>

theorem check_same_when_listening_constant:
  "(\<not> stepListening st \<longrightarrow> extract_step s st = (None, s))
   \<and> ((\<forall>st \<in> set sts. stepListening st) \<longrightarrow> run s sts = run_without_check s sts)
   \<and> ((\<forall>st \<in> set sts. \<not> stepListening st) \<longrightarrow>
        delivered sts (fst (run s sts)) = delivered sts (fst (run_without_check s sts)))"
proof -
  have first: "\<not> stepListening st \<longrightarrow> extract_step s st = (None, s)"
    by (simp add: step_not_listening)
  have second: "(\<forall>st \<in> set sts. stepListening st) \<longrightarrow> run s sts = run_without_check s sts"
    using run_listening_same by blast
  have third: "(\<forall>st \<in> set sts. \<not> stepListening st) \<longrightarrow>
        delivered sts (fst (run s sts)) = delivered sts (fst (run_without_check s sts))"
  proof
    assume a: "\<forall>st \<in> set sts. \<not> stepListening st"
    from delivered_not_listening [OF a length_run]
      delivered_not_listening [OF a length_run_without_check]
    show "delivered sts (fst (run s sts)) = delivered sts (fst (run_without_check s sts))"
      by simp
  qed
  from first second third show ?thesis by (intro conjI)
qed

theorem check_same_when_listening_constant_witness:
  "stepListening (example_step (example_platform True (Some 11) 0 0) ''topFocus'' 1) \<and>
   stepListening (example_step (example_platform True (Some 11) 0 0) ''topKeyUp'' 1) \<and>
   run initial_state
     [example_step (example_platform True (Some 11) 0 0) ''topFocus'' 1,
      example_step (example_platform True (Some 11) 0 0) ''topKeyUp'' 1] =
   run_without_check initial_state
     [example_step (example_platform True (Some 11) 0 0) ''topFocus'' 1,
      example_step (example_platform True (Some 11) 0 0) ''topKeyUp'' 1] \<and>
   fst (run initial_state
     [example_step (example_platform True (Some 11) 0 0) ''topFocus'' 1,
      example_step (example_platform True (Some 11) 0 0) ''topKeyUp'' 1]) =
     [None, Some (select_event (Some 1) 11 plain_event 11)] \<and>
   \<not> stepListening (example_step (example_platform False (Some 11) 0 0) ''topFocus'' 1) \<and>
   extract_step initial_state (example_step (example_platform False (Some 11) 0 0) ''topFocus'' 1)
     = (None, initial_state)"
proof -
  let ?f = "example_step (example_platform True (Some 11) 0 0) ''topFocus'' 1"
  let ?k = "example_step (example_platform True (Some 11) 0 0) ''topKeyUp'' 1"
  let ?n = "example_step (example_platform False (Some 11) 0 0) ''topFocus'' 1"
  have l: "\<forall>st \<in> set [?f, ?k]. stepListening st"
    by (simp add: stepListening_def example_step_def example_platform_def
          listening_def documentOf_def)
  have n: "\<not> stepListening ?n"
    by (simp add: stepListening_def example_step_def example_platform_def
          listening_def documentOf_def)
  note claim = check_same_when_listening_constant [of ?n initial_state "[?f, ?k]"]
  from claim [THEN conjunct1] n have a: "extract_step initial_state ?n = (None, initial_state)"
    by blast
  from claim [THEN conjunct2, THEN conjunct1] l
  have b: "run initial_state [?f, ?k] = run_without_check initial_state [?f, ?k]"
    by blast
  have c: "fst (run initial_state [?f, ?k]) =
             [None, Some (select_event (Some 1) 11 plain_event 11)]"
    by (simp add: example_defs)
  from l have "stepListening ?f" and "stepListening ?k" by simp_all
  with b c n a show ?thesis by (intro conjI)
qed

end
